theory Spec2Isabelle
  imports Complex_Main
begin

section \<open>Tensors, devices and the heap\<close>

text \<open>
  The layer of \<^verbatim>\<open>modules/layer.py\<close> works on float tensors of the tensor library. A
  2-d tensor is a list of rows, a 3-d tensor a list of 2-d tensors; entries are modelled
  as real numbers (the properties below are about shapes, positions and the values 0 and
  1, not about rounding). Index tensors (\<^verbatim>\<open>LongTensor\<close>) hold integers.

  A list of lists can be ragged, a tensor cannot: the predicates \<open>is_mat\<close> and
  \<open>is_tensor3\<close> say that a value is a tensor of the given shape.
\<close>

type_synonym vec = "real list"
type_synonym matrix = "real list list"
type_synonym tensor3 = "real list list list"

definition is_mat :: "nat \<Rightarrow> nat \<Rightarrow> 'a list list \<Rightarrow> bool" where
  "is_mat r c m = (length m = r \<and> list_all (\<lambda>row. length row = c) m)"

definition is_tensor3 :: "nat \<Rightarrow> nat \<Rightarrow> nat \<Rightarrow> 'a list list list \<Rightarrow> bool" where
  "is_tensor3 l r c t = (length t = l \<and> list_all (is_mat r c) t)"

text \<open>
  The faults the tensor library raises on the paths of this layer: an index outside the
  indexed dimension (\<^verbatim>\<open>scatter_\<close>, indexing by a tensor), operands whose shapes do not
  fit, a probability outside \<open>[0, 1]\<close> given to \<^verbatim>\<open>bernoulli\<close>, and a constructor
  argument the recurrent module rejects.
\<close>

datatype error = IndexOutOfBounds | ShapeMismatch | ProbabilityOutOfRange | ValueError

text \<open>
  The one-hot buffer is mutated in place and handed out by reference, so it lives in an
  explicit heap: an address names a tensor object, which has a device and its contents.
  \<open>next_free\<close> is the first address never allocated. \<^verbatim>\<open>t.cuda()\<close> returns the object
  itself when it already is on the accelerator and a fresh copy otherwise.
\<close>

datatype device = CPU | CUDA

record tensor_obj =
  device :: device
  storage :: matrix

type_synonym addr = nat

record heap =
  cells :: "addr \<Rightarrow> tensor_obj"
  next_free :: addr

definition alloc :: "heap \<Rightarrow> tensor_obj \<Rightarrow> addr \<times> heap" where
  "alloc h t = (next_free h, h\<lparr>cells := (cells h)(next_free h := t), next_free := Suc (next_free h)\<rparr>)"

definition cuda :: "heap \<Rightarrow> addr \<Rightarrow> addr \<times> heap" where
  "cuda h a =
     (if device (cells h a) = CUDA then (a, h)
      else alloc h ((cells h a)\<lparr>device := CUDA\<rparr>))"

section \<open>The layer's fixed dimensions\<close>

text \<open>
  The fields \<^verbatim>\<open>__init__\<close> copies from its arguments. \<^verbatim>\<open>init_emb\<close> and
  \<^verbatim>\<open>init_hidden\<close> read only these, so they are defined on every record that extends
  \<open>GRU_dims\<close>.
\<close>

record GRU_dims =
  input_size :: nat
  hidden_size :: nat
  output_size :: nat
  num_layers :: nat
  dropout_input :: real
  dropout_hidden :: real
  batch_size :: nat
  use_cuda :: bool

definition mk_matrix :: "nat \<Rightarrow> nat \<Rightarrow> (nat \<Rightarrow> nat \<Rightarrow> 'a) \<Rightarrow> 'a list list" where
  "mk_matrix r c f = map (\<lambda>i. map (f i) [0..<c]) [0..<r]"

text \<open>
  \<^verbatim>\<open>init_emb\<close>: \<^verbatim>\<open>torch.FloatTensor(batch_size, output_size)\<close> allocates a tensor
  without initialising it; \<open>junk\<close> stands for whatever the memory held. With
  \<^verbatim>\<open>use_cuda\<close> the buffer is moved to the accelerator and that object is returned.
\<close>

definition init_emb :: "'a GRU_dims_scheme \<Rightarrow> (nat \<Rightarrow> nat \<Rightarrow> real) \<Rightarrow> heap \<Rightarrow> addr \<times> heap" where
  "init_emb self junk h =
     (let (onehot_buffer, h1) =
            alloc h \<lparr>device = CPU, storage = mk_matrix (batch_size self) (output_size self) junk\<rparr>
      in if use_cuda self then cuda h1 onehot_buffer else (onehot_buffer, h1))"

text \<open>
  \<^verbatim>\<open>init_hidden\<close>: \<^verbatim>\<open>torch.zeros(num_layers, batch_size, hidden_size)\<close>, a fresh
  tensor; \<^verbatim>\<open>.cuda()\<close> changes where it lives, not its value, so the result is modelled
  as a value.
\<close>

definition init_hidden :: "'a GRU_dims_scheme \<Rightarrow> tensor3" where
  "init_hidden self =
     replicate (num_layers self) (replicate (batch_size self) (replicate (hidden_size self) 0))"

section \<open>One-hot embedding\<close>

text \<open>
  \<^verbatim>\<open>t.zero_()\<close> overwrites every entry with 0. \<^verbatim>\<open>input.view(-1, 1)\<close> turns the
  index vector into a column. \<^verbatim>\<open>t.scatter_(1, index, 1)\<close> writes the value at
  \<open>t[i][index[i][j]]\<close> for every entry of \<open>index\<close>; the library rejects an index
  tensor with more rows than \<open>t\<close> and any index value outside \<open>[0, size)\<close>
  (a negative index is not wrapped).
\<close>

definition zero_inplace :: "matrix \<Rightarrow> matrix" where
  "zero_inplace m = map (map (\<lambda>_. 0)) m"

definition view_col :: "'a list \<Rightarrow> 'a list list" where
  "view_col xs = map (\<lambda>x. [x]) xs"

fun scatter_row :: "vec \<Rightarrow> int list \<Rightarrow> real \<Rightarrow> error + vec" where
  "scatter_row row [] v = Inr row"
| "scatter_row row (k # ks) v =
     (if 0 \<le> k \<and> k < int (length row) then scatter_row (row[nat k := v]) ks v
      else Inl IndexOutOfBounds)"

fun scatter_rows :: "matrix \<Rightarrow> int list list \<Rightarrow> real \<Rightarrow> error + matrix" where
  "scatter_rows rows [] v = Inr rows"
| "scatter_rows [] (ix # ixs) v = Inl ShapeMismatch"
| "scatter_rows (row # rows) (ix # ixs) v =
     (case scatter_row row ix v of
        Inl e \<Rightarrow> Inl e
      | Inr row' \<Rightarrow>
          (case scatter_rows rows ixs v of
             Inl e \<Rightarrow> Inl e
           | Inr rows' \<Rightarrow> Inr (row' # rows')))"

definition scatter_inplace :: "matrix \<Rightarrow> int list list \<Rightarrow> real \<Rightarrow> error + matrix" where
  "scatter_inplace m index v =
     (if length index > length m then Inl ShapeMismatch else scatter_rows m index v)"

section \<open>Parameters and submodules\<close>

text \<open>
  A learnable parameter is a tensor with its gradient-tracking flag. \<^verbatim>\<open>nn.Linear\<close>
  owns a weight (out \<open>\<times>\<close> in) and a bias; \<^verbatim>\<open>nn.GRU\<close> owns four parameters for each
  stacked layer (the gates in the order reset, update, new), its dropout probability and
  its own mode flag, which \<^verbatim>\<open>train(mode)\<close> sets.
\<close>

record 'a param =
  data :: 'a
  requires_grad :: bool

record Linear =
  in_features :: nat
  out_features :: nat
  weight :: "matrix param"
  bias :: "vec param"

record GRU_weights =
  weight_ih :: "matrix param"
  weight_hh :: "matrix param"
  bias_ih :: "vec param"
  bias_hh :: "vec param"

record nnGRU =
  gru_input_size :: nat
  gru_hidden_size :: nat
  gru_num_layers :: nat
  gru_dropout :: real
  gru_training :: bool
  all_weights :: "GRU_weights list"

definition train :: "nnGRU \<Rightarrow> bool \<Rightarrow> nnGRU" where
  "train m mode = m\<lparr>gru_training := mode\<rparr>"

text \<open>
  The layer object: the dimensions, the mode flag, the reference to the one-hot buffer
  and the two submodules with parameters (\<^verbatim>\<open>nn.Tanh\<close> has no state).
\<close>

record GRU = GRU_dims +
  training :: bool
  onehot_buffer :: addr
  h2o :: Linear
  gru :: nnGRU

text \<open>
  \<^verbatim>\<open>emb\<close>: flush the buffer, scatter the ones, wrap the buffer in a \<^verbatim>\<open>Variable\<close>
  (which shares the buffer's storage: the same heap object; \<^verbatim>\<open>volatile\<close> only
  concerns gradient bookkeeping) and return it, through \<^verbatim>\<open>.cuda()\<close> when
  \<^verbatim>\<open>use_cuda\<close> is set. The buffer is rewritten in place, so the heap is returned too.
\<close>

definition emb :: "GRU \<Rightarrow> heap \<Rightarrow> int list \<Rightarrow> error + (addr \<times> heap)" where
  "emb self h input =
     (let buf = cells h (onehot_buffer self);
          flushed = zero_inplace (storage buf);
          index = view_col input
      in case scatter_inplace flushed index 1 of
           Inl e \<Rightarrow> Inl e
         | Inr filled \<Rightarrow>
             (let h1 = h\<lparr>cells := (cells h)(onehot_buffer self := buf\<lparr>storage := filled\<rparr>)\<rparr>;
                  one_hot = onehot_buffer self
              in Inr (if use_cuda self then cuda h1 one_hot else (one_hot, h1))))"

section \<open>Mode switch\<close>

text \<open>
  \<^verbatim>\<open>self.parameters()\<close> yields the parameters of \<^verbatim>\<open>h2o\<close>, then those of
  \<^verbatim>\<open>gru\<close> layer by layer. \<open>grad_flags\<close> reads their flags in that order,
  \<open>set_requires_grad\<close> is the loop that assigns all of them.
\<close>

definition with_grad :: "bool \<Rightarrow> 'a param \<Rightarrow> 'a param" where
  "with_grad b p = p\<lparr>requires_grad := b\<rparr>"

definition weights_with_grad :: "bool \<Rightarrow> GRU_weights \<Rightarrow> GRU_weights" where
  "weights_with_grad b w =
     \<lparr>weight_ih = with_grad b (weight_ih w), weight_hh = with_grad b (weight_hh w),
      bias_ih = with_grad b (bias_ih w), bias_hh = with_grad b (bias_hh w)\<rparr>"

definition set_requires_grad :: "GRU \<Rightarrow> bool \<Rightarrow> GRU" where
  "set_requires_grad self b =
     self\<lparr>h2o := (h2o self)\<lparr>weight := with_grad b (weight (h2o self)),
                            bias := with_grad b (bias (h2o self))\<rparr>,
          gru := (gru self)\<lparr>all_weights := map (weights_with_grad b) (all_weights (gru self))\<rparr>\<rparr>"

definition weights_flags :: "GRU_weights \<Rightarrow> bool list" where
  "weights_flags w =
     [requires_grad (weight_ih w), requires_grad (weight_hh w),
      requires_grad (bias_ih w), requires_grad (bias_hh w)]"

definition grad_flags :: "GRU \<Rightarrow> bool list" where
  "grad_flags self =
     [requires_grad (weight (h2o self)), requires_grad (bias (h2o self))]
     @ concat (map weights_flags (all_weights (gru self)))"

text \<open>
  \<^verbatim>\<open>switch_mode\<close> returns nothing; its effects are the new layer state and the line it
  prints, which is the second component here.
\<close>

definition switch_mode :: "GRU \<Rightarrow> GRU \<times> string" where
  "switch_mode self =
     (let self1 = self\<lparr>training := \<not> training self\<rparr>;
          mode = (if training self1 then ''Training'' else ''Testing'');
          printed = ''Switching into '' @ mode @ '' mode.'';
          self2 = set_requires_grad self1 (training self1);
          self3 = self2\<lparr>gru := train (gru self2) (training self2)\<rparr>
      in (self3, printed))"

section \<open>Random draws and dropout\<close>

text \<open>
  The generator is the stream of uniform variates in \<open>[0, 1)\<close> it will hand out next;
  drawing consumes a prefix. \<^verbatim>\<open>torch.bernoulli(p)\<close> draws one variate \<open>u\<close> for each
  entry of \<open>p\<close> and returns 1 where \<open>u < p\<close> and 0 elsewhere, so an entry is 1 with
  probability \<open>p\<close>; it rejects a \<open>p\<close> outside \<open>[0, 1]\<close>.
\<close>

type_synonym rng = "nat \<Rightarrow> real"

definition draws :: "rng \<Rightarrow> nat \<Rightarrow> real list \<times> rng" where
  "draws g n = (map g [0..<n], \<lambda>i. g (n + i))"

definition coin :: "real \<Rightarrow> real \<Rightarrow> real" where
  "coin u p = (if u < p then 1 else 0)"

fun bernoulli_rows :: "rng \<Rightarrow> matrix \<Rightarrow> matrix \<times> rng" where
  "bernoulli_rows g [] = ([], g)"
| "bernoulli_rows g (ps # pss) =
     (let (us, g1) = draws g (length ps);
          (rest, g2) = bernoulli_rows g1 pss
      in (map2 coin us ps # rest, g2))"

definition bernoulli :: "rng \<Rightarrow> matrix \<Rightarrow> error + (matrix \<times> rng)" where
  "bernoulli g p =
     (if list_all (list_all (\<lambda>q. 0 \<le> q \<and> q \<le> 1)) p then Inr (bernoulli_rows g p)
      else Inl ProbabilityOutOfRange)"

text \<open>
  \<^verbatim>\<open>m.expand_as(e)\<close> for a one-column \<open>m\<close>: the single entry of each row is repeated
  along the width of \<open>e\<close>.
\<close>

definition expand_as :: "matrix \<Rightarrow> matrix \<Rightarrow> matrix" where
  "expand_as m e = map2 (\<lambda>mrow erow. concat (map (replicate (length erow)) mrow)) m e"

definition mul :: "matrix \<Rightarrow> matrix \<Rightarrow> matrix" where
  "mul a b = map2 (map2 (*)) a b"

text \<open>
  The dropout \<^verbatim>\<open>nn.GRU\<close> puts between stacked layers while it is in training mode:
  every entry is kept with probability \<open>1 - p\<close> and scaled by \<open>1 / (1 - p)\<close>, or
  zeroed; \<open>p = 1\<close> zeroes everything.
\<close>

definition dropout_mat :: "real \<Rightarrow> rng \<Rightarrow> matrix \<Rightarrow> matrix \<times> rng" where
  "dropout_mat p g x =
     (let (mask, g1) = bernoulli_rows g (map (map (\<lambda>_. 1 - p)) x)
      in (if p = 1 then map (map (\<lambda>_. 0)) x
          else map2 (map2 (\<lambda>a m. a * m / (1 - p))) x mask, g1))"

fun dropout3 :: "real \<Rightarrow> rng \<Rightarrow> tensor3 \<Rightarrow> tensor3 \<times> rng" where
  "dropout3 p g [] = ([], g)"
| "dropout3 p g (x # xs) =
     (let (y, g1) = dropout_mat p g x;
          (ys, g2) = dropout3 p g1 xs
      in (y # ys, g2))"

section \<open>The recurrent stack and the output head\<close>

text \<open>
  \<^verbatim>\<open>F.linear\<close> on one row: \<open>W x + b\<close>. The GRU cell on one session's row, with the
  library's gate equations:
  \<open>r = \<sigma>(W\<^sub>i\<^sub>r x + b\<^sub>i\<^sub>r + W\<^sub>h\<^sub>r h + b\<^sub>h\<^sub>r)\<close>,
  \<open>z = \<sigma>(W\<^sub>i\<^sub>z x + b\<^sub>i\<^sub>z + W\<^sub>h\<^sub>z h + b\<^sub>h\<^sub>z)\<close>,
  \<open>n = tanh(W\<^sub>i\<^sub>n x + b\<^sub>i\<^sub>n + r * (W\<^sub>h\<^sub>n h + b\<^sub>h\<^sub>n))\<close>,
  \<open>h' = n + z * (h - n)\<close>.
\<close>

definition sigmoid :: "real \<Rightarrow> real" where
  "sigmoid x = 1 / (1 + exp (- x))"

definition dot :: "vec \<Rightarrow> vec \<Rightarrow> real" where
  "dot xs ys = sum_list (map2 (*) xs ys)"

definition linear :: "matrix \<Rightarrow> vec \<Rightarrow> vec \<Rightarrow> vec" where
  "linear w b x = map2 (+) (map (\<lambda>row. dot row x) w) b"

definition gru_cell :: "GRU_weights \<Rightarrow> vec \<Rightarrow> vec \<Rightarrow> vec" where
  "gru_cell w x h =
     (let n_h = length h;
          gi = linear (data (weight_ih w)) (data (bias_ih w)) x;
          gh = linear (data (weight_hh w)) (data (bias_hh w)) h;
          i_r = take n_h gi; i_z = take n_h (drop n_h gi); i_n = drop (2 * n_h) gi;
          h_r = take n_h gh; h_z = take n_h (drop n_h gh); h_n = drop (2 * n_h) gh;
          resetgate = map sigmoid (map2 (+) i_r h_r);
          inputgate = map sigmoid (map2 (+) i_z h_z);
          newgate = map tanh (map2 (+) i_n (map2 (*) resetgate h_n))
      in map2 (\<lambda>n (z, hp). n + z * (hp - n)) newgate (zip inputgate h))"

text \<open>
  One layer over the time steps of the input, from the layer's initial hidden state:
  the outputs at every step and the final hidden state. Then the stack: each layer reads
  the outputs of the layer below, with dropout on them (all but the last layer) when the
  module is in training mode and its dropout probability is not zero.
\<close>

fun gru_layer :: "GRU_weights \<Rightarrow> tensor3 \<Rightarrow> matrix \<Rightarrow> tensor3 \<times> matrix" where
  "gru_layer w [] h = ([], h)"
| "gru_layer w (x # xs) h =
     (let h1 = map2 (gru_cell w) x h;
          (ys, hT) = gru_layer w xs h1
      in (h1 # ys, hT))"

fun gru_stack :: "bool \<Rightarrow> real \<Rightarrow> rng \<Rightarrow> (GRU_weights \<times> matrix) list \<Rightarrow> tensor3
                  \<Rightarrow> (tensor3 \<times> tensor3) \<times> rng" where
  "gru_stack tr p g [] xs = ((xs, []), g)"
| "gru_stack tr p g ((w, h0) # rest) xs =
     (let (ys, hT) = gru_layer w xs h0;
          (ys1, g1) = (if rest \<noteq> [] \<and> tr \<and> p \<noteq> 0 then dropout3 p g ys else (ys, g));
          ((out, hs), g2) = gru_stack tr p g1 rest ys1
      in ((out, hT # hs), g2))"

text \<open>
  \<^verbatim>\<open>nn.GRU.forward(input, hx)\<close> with \<open>input\<close> of shape (T, B, input size) and
  \<open>hx\<close> of shape (L, B, H): the library rejects an empty sequence, an input whose
  feature width is not the module's input size and a hidden state of another shape.
  It returns the top layer's outputs (T, B, H) and the final hidden states (L, B, H).
\<close>

definition gru_forward :: "nnGRU \<Rightarrow> rng \<Rightarrow> tensor3 \<Rightarrow> tensor3
                           \<Rightarrow> error + ((tensor3 \<times> tensor3) \<times> rng)" where
  "gru_forward m g input hx =
     (case input of
        [] \<Rightarrow> Inl ShapeMismatch
      | x0 # _ \<Rightarrow>
          (let n_b = length x0 in
           if \<not> is_tensor3 (length input) n_b (gru_input_size m) input then Inl ShapeMismatch
           else if \<not> is_tensor3 (gru_num_layers m) n_b (gru_hidden_size m) hx
             then Inl ShapeMismatch
           else Inr (gru_stack (gru_training m) (gru_dropout m) g
                       (zip (all_weights m) hx) input)))"

text \<open>
  \<^verbatim>\<open>nn.Linear\<close> on a batch: every row must have the width \<^verbatim>\<open>in_features\<close>.
\<close>

definition linear_forward :: "Linear \<Rightarrow> matrix \<Rightarrow> error + matrix" where
  "linear_forward l x =
     (if list_all (\<lambda>row. length row = in_features l) x
      then Inr (map (linear (data (weight l)) (data (bias l))) x)
      else Inl ShapeMismatch)"

text \<open>
  \<^verbatim>\<open>logit[:, target]\<close>: indexing the columns of a tensor with \<open>n_c\<close> columns by an
  index tensor. Column \<open>j\<close> of the result is column \<open>target[j]\<close> of \<open>logit\<close>; an index
  in \<open>[-n_c, 0)\<close> counts from the end, any other index outside \<open>[0, n_c)\<close> is
  rejected.
\<close>

definition wrap_index :: "nat \<Rightarrow> int \<Rightarrow> nat" where
  "wrap_index n_c k = (if k < 0 then nat (k + int n_c) else nat k)"

definition index_columns :: "nat \<Rightarrow> matrix \<Rightarrow> int list \<Rightarrow> error + matrix" where
  "index_columns n_c logit target =
     (if list_all (\<lambda>k. - int n_c \<le> k \<and> k < int n_c) target
      then Inr (map (\<lambda>row. map (\<lambda>k. row ! wrap_index n_c k) target) logit)
      else Inl IndexOutOfBounds)"

section \<open>The forward step\<close>

text \<open>
  Lines 58 to 63 of \<^verbatim>\<open>forward\<close>: in training mode a (B, 1) tensor filled with
  \<open>1 - dropout_input\<close> is given to \<^verbatim>\<open>bernoulli\<close>, the result is expanded to the shape
  of \<open>embedded\<close> and multiplied into it; otherwise \<open>embedded\<close> is left as it is and
  the generator is not touched. (\<^verbatim>\<open>mask.cuda()\<close> moves the mask, its values stay.)
\<close>

definition input_dropout :: "GRU \<Rightarrow> rng \<Rightarrow> matrix \<Rightarrow> error + (matrix \<times> rng)" where
  "input_dropout self g embedded =
     (if training self then
        (let p_drop = replicate (length embedded) [1 - dropout_input self]
         in case bernoulli g p_drop of
              Inl e \<Rightarrow> Inl e
            | Inr (coins, g1) \<Rightarrow>
                (let mask = expand_as coins embedded
                 in Inr (mul embedded mask, g1)))
      else Inr (embedded, g))"

text \<open>
  Lines 64 to 75: one time step through the recurrent stack, then the output head,
  giving the (B, C) logits over the whole vocabulary and the new hidden state.
\<close>

definition full_logits :: "GRU \<Rightarrow> rng \<Rightarrow> matrix \<Rightarrow> tensor3
                           \<Rightarrow> error + ((matrix \<times> tensor3) \<times> rng)" where
  "full_logits self g embedded hidden =
     (case gru_forward (gru self) g [embedded] hidden of
        Inl e \<Rightarrow> Inl e
      | Inr ((output, hidden1), g1) \<Rightarrow>
          (let output1 = concat output
           in case linear_forward (h2o self) output1 of
                Inl e \<Rightarrow> Inl e
              | Inr y \<Rightarrow> Inr ((map (map tanh) y, hidden1), g1)))"

text \<open>
  Lines 64 to 80: the recurrent step and the head, and in training mode the restriction
  of the logits to the columns named by \<open>target\<close>. \<^verbatim>\<open>forward\<close> is the input
  dropout followed by this.
\<close>

definition forward_tail :: "GRU \<Rightarrow> rng \<Rightarrow> matrix \<Rightarrow> int list \<Rightarrow> tensor3
                            \<Rightarrow> error + ((matrix \<times> tensor3) \<times> rng)" where
  "forward_tail self g embedded target hidden =
     (case full_logits self g embedded hidden of
        Inl e \<Rightarrow> Inl e
      | Inr ((logit, hidden1), g1) \<Rightarrow>
          (if training self then
             (case index_columns (out_features (h2o self)) logit target of
                Inl e \<Rightarrow> Inl e
              | Inr sampled \<Rightarrow> Inr ((sampled, hidden1), g1))
           else Inr ((logit, hidden1), g1)))"

definition forward :: "GRU \<Rightarrow> rng \<Rightarrow> matrix \<Rightarrow> int list \<Rightarrow> tensor3
                       \<Rightarrow> error + ((matrix \<times> tensor3) \<times> rng)" where
  "forward self g embedded target hidden =
     (case input_dropout self g embedded of
        Inl e \<Rightarrow> Inl e
      | Inr (embedded1, g1) \<Rightarrow> forward_tail self g1 embedded1 target hidden)"

section \<open>Construction\<close>

text \<open>
  \<^verbatim>\<open>__init__\<close>. Every module of the library starts with its own mode flag set (training)
  and every parameter with gradient tracking on; \<^verbatim>\<open>__init__\<close> then assigns its
  \<^verbatim>\<open>training\<close> argument to the layer's flag only. The library draws the initial
  parameter values at random: \<open>w0 k i j\<close> stands for the value drawn for entry
  \<open>(i, j)\<close> of the \<open>k\<close>-th parameter (in the order of \<^verbatim>\<open>parameters()\<close>).
  \<^verbatim>\<open>nn.GRU\<close> rejects a dropout probability outside \<open>[0, 1]\<close>, a hidden size of zero
  and a layer count of zero. The final \<^verbatim>\<open>self.cuda()\<close> moves the parameters to the
  accelerator and changes no value or flag.
\<close>

definition new_param :: "'a \<Rightarrow> 'a param" where
  "new_param x = \<lparr>data = x, requires_grad = True\<rparr>"

definition new_Linear :: "nat \<Rightarrow> nat \<Rightarrow> (nat \<Rightarrow> nat \<Rightarrow> nat \<Rightarrow> real) \<Rightarrow> Linear" where
  "new_Linear n_in n_out w0 =
     \<lparr>in_features = n_in, out_features = n_out,
      weight = new_param (mk_matrix n_out n_in (w0 0)),
      bias = new_param (map (w0 1 0) [0..<n_out])\<rparr>"

definition new_weights :: "nat \<Rightarrow> nat \<Rightarrow> (nat \<Rightarrow> nat \<Rightarrow> nat \<Rightarrow> real) \<Rightarrow> nat \<Rightarrow> GRU_weights" where
  "new_weights n_in n_h w0 l =
     \<lparr>weight_ih = new_param (mk_matrix (3 * n_h) (if l = 0 then n_in else n_h) (w0 (2 + 4 * l))),
      weight_hh = new_param (mk_matrix (3 * n_h) n_h (w0 (3 + 4 * l))),
      bias_ih = new_param (map (w0 (4 + 4 * l) 0) [0..<3 * n_h]),
      bias_hh = new_param (map (w0 (5 + 4 * l) 0) [0..<3 * n_h])\<rparr>"

definition new_nnGRU :: "nat \<Rightarrow> nat \<Rightarrow> nat \<Rightarrow> real \<Rightarrow> (nat \<Rightarrow> nat \<Rightarrow> nat \<Rightarrow> real)
                         \<Rightarrow> error + nnGRU" where
  "new_nnGRU n_in n_h n_l p w0 =
     (if p < 0 \<or> 1 < p \<or> n_h = 0 \<or> n_l = 0 then Inl ValueError
      else Inr \<lparr>gru_input_size = n_in, gru_hidden_size = n_h, gru_num_layers = n_l,
                gru_dropout = p, gru_training = True,
                all_weights = map (new_weights n_in n_h w0) [0..<n_l]\<rparr>)"

definition GRU_init :: "nat \<Rightarrow> nat \<Rightarrow> nat \<Rightarrow> nat \<Rightarrow> real \<Rightarrow> real \<Rightarrow> nat \<Rightarrow> bool \<Rightarrow> bool
                        \<Rightarrow> (nat \<Rightarrow> nat \<Rightarrow> real) \<Rightarrow> (nat \<Rightarrow> nat \<Rightarrow> nat \<Rightarrow> real) \<Rightarrow> heap
                        \<Rightarrow> error + (GRU \<times> heap)" where
  "GRU_init n_in n_h n_out n_l p_hidden p_input n_b cuda_flag training_flag junk w0 h =
     (let dims = \<lparr>input_size = n_in, hidden_size = n_h, output_size = n_out,
                  num_layers = n_l, dropout_input = p_input, dropout_hidden = p_hidden,
                  batch_size = n_b, use_cuda = cuda_flag\<rparr>;
          (buffer, h1) = init_emb dims junk h
      in case new_nnGRU n_in n_h n_l p_hidden w0 of
           Inl e \<Rightarrow> Inl e
         | Inr g \<Rightarrow>
             Inr (\<lparr>input_size = n_in, hidden_size = n_h, output_size = n_out,
                   num_layers = n_l, dropout_input = p_input, dropout_hidden = p_hidden,
                   batch_size = n_b, use_cuda = cuda_flag,
                   training = training_flag, onehot_buffer = buffer,
                   h2o = new_Linear n_h n_out w0, gru = g\<rparr>, h1))"

section \<open>The specified one-hot encoding and the buffer invariant\<close>

text \<open>
  The encoding as the specification words it: row \<open>i\<close> has a 1 at column
  \<open>index[i]\<close> and 0 elsewhere.
\<close>

definition spec_one_hot :: "nat \<Rightarrow> int list \<Rightarrow> matrix" where
  "spec_one_hot n_c index = map (\<lambda>k. map (\<lambda>c. if int c = k then 1 else 0) [0..<n_c]) index"

text \<open>
  What \<^verbatim>\<open>__init__\<close> establishes for the buffer and \<^verbatim>\<open>emb\<close> keeps: it has the
  shape (batch size, output size) and, with \<^verbatim>\<open>use_cuda\<close>, lives on the accelerator.
  \<open>filled_heap\<close> is the heap after the buffer has been overwritten with an encoding.
\<close>

definition buffer_ok :: "GRU \<Rightarrow> heap \<Rightarrow> bool" where
  "buffer_ok self h =
     (is_mat (batch_size self) (output_size self) (storage (cells h (onehot_buffer self)))
      \<and> (use_cuda self \<longrightarrow> device (cells h (onehot_buffer self)) = CUDA))"

definition filled_heap :: "GRU \<Rightarrow> heap \<Rightarrow> int list \<Rightarrow> heap" where
  "filled_heap self h index =
     h\<lparr>cells := (cells h)(onehot_buffer self :=
          (cells h (onehot_buffer self))\<lparr>storage := spec_one_hot (output_size self) index\<rparr>)\<rparr>"

section \<open>Well-formed layers and concrete layers\<close>

text \<open>
  The shapes \<^verbatim>\<open>nn.Linear\<close> and \<^verbatim>\<open>nn.GRU\<close> give their parameters: three gates of
  \<open>n_h\<close> rows each; the first stacked layer reads the input, every other one the layer
  below. \<open>params_ok\<close> is what \<^verbatim>\<open>__init__\<close> establishes for the layer's
  submodules.
\<close>

definition gate_rows :: "nat \<Rightarrow> GRU_weights \<Rightarrow> bool" where
  "gate_rows n_h w =
     (length (data (weight_ih w)) = 3 * n_h \<and> length (data (bias_ih w)) = 3 * n_h
      \<and> length (data (weight_hh w)) = 3 * n_h \<and> length (data (bias_hh w)) = 3 * n_h)"

definition weights_ok :: "nat \<Rightarrow> nat \<Rightarrow> GRU_weights \<Rightarrow> bool" where
  "weights_ok n_in n_h w =
     (is_mat (3 * n_h) n_in (data (weight_ih w)) \<and> is_mat (3 * n_h) n_h (data (weight_hh w))
      \<and> length (data (bias_ih w)) = 3 * n_h \<and> length (data (bias_hh w)) = 3 * n_h)"

definition params_ok :: "GRU \<Rightarrow> bool" where
  "params_ok self =
     (in_features (h2o self) = hidden_size self \<and> out_features (h2o self) = output_size self
      \<and> is_mat (output_size self) (hidden_size self) (data (weight (h2o self)))
      \<and> length (data (bias (h2o self))) = output_size self
      \<and> gru_input_size (gru self) = input_size self
      \<and> gru_hidden_size (gru self) = hidden_size self
      \<and> gru_num_layers (gru self) = num_layers self
      \<and> length (all_weights (gru self)) = num_layers self
      \<and> (case all_weights (gru self) of
            [] \<Rightarrow> False
          | w # ws \<Rightarrow> weights_ok (input_size self) (hidden_size self) w
                      \<and> list_all (weights_ok (hidden_size self) (hidden_size self)) ws))"

text \<open>Column \<open>j\<close> of a 2-d tensor.\<close>

definition column :: "matrix \<Rightarrow> nat \<Rightarrow> vec" where
  "column m j = map (\<lambda>row. row ! j) m"

text \<open>Two calls of \<^verbatim>\<open>switch_mode\<close> in succession.\<close>

definition switch_twice :: "GRU \<Rightarrow> GRU" where
  "switch_twice self = fst (switch_mode (fst (switch_mode self)))"

text \<open>
  Concrete layers. \<open>demo_layer\<close> is the layer of the specification's end-to-end
  example (B = 2, C = 5, H = 3, L = 1, input size 4), built in training mode on an empty
  heap. \<open>stacked_layer\<close> is built by
  \<^verbatim>\<open>GRU(1, 1, 1, num_layers=2, dropout_hidden=.5, batch_size=1, use_cuda=False, training=False)\<close>
  with parameter values 0 except three entries that are 1. \<open>frozen_layer\<close> is
  \<open>demo_layer\<close> after its user has switched gradient tracking off for the bias of the
  output head.
\<close>

definition empty_heap :: heap where
  "empty_heap = \<lparr>cells = (\<lambda>_. \<lparr>device = CPU, storage = []\<rparr>), next_free = 0\<rparr>"

definition demo_built :: "error + (GRU \<times> heap)" where
  "demo_built = GRU_init 4 3 5 1 (1/2) 0 2 False True (\<lambda>i j. 7) (\<lambda>k i j. 0) empty_heap"

definition demo_layer :: GRU where
  "demo_layer = fst (projr demo_built)"

definition demo_heap :: heap where
  "demo_heap = snd (projr demo_built)"

definition stacked_w0 :: "nat \<Rightarrow> nat \<Rightarrow> nat \<Rightarrow> real" where
  "stacked_w0 k i j = (if k = 0 \<or> (k = 4 \<and> j = 2) \<or> (k = 6 \<and> i = 2) then 1 else 0)"

definition stacked_built :: "error + (GRU \<times> heap)" where
  "stacked_built = GRU_init 1 1 1 2 (1/2) 0 1 False False (\<lambda>i j. 0) stacked_w0 empty_heap"

definition stacked_layer :: GRU where
  "stacked_layer = fst (projr stacked_built)"

definition frozen_layer :: GRU where
  "frozen_layer = demo_layer\<lparr>h2o := (h2o demo_layer)\<lparr>bias := with_grad False (bias (h2o demo_layer))\<rparr>\<rparr>"

section \<open>Properties of the one-hot embedding\<close>

lemma zero_inplace_replicate:
  "is_mat r c m \<Longrightarrow> zero_inplace m = replicate r (replicate c 0)"
  unfolding is_mat_def zero_inplace_def
  by (induction m arbitrary: r) (auto simp: map_replicate_const)

lemma one_hot_row:
  assumes "0 \<le> k" "k < int c"
  shows "(replicate c (0::real))[nat k := 1] = map (\<lambda>j. if int j = k then 1 else 0) [0..<c]"
  using assms by (intro nth_equalityI) (auto simp: nth_list_update)

lemma scatter_rows_view_col:
  assumes "length index \<le> length m"
    and "list_all (\<lambda>row. length row = c) m"
    and "list_all (\<lambda>k. 0 \<le> k \<and> k < int c) index"
  shows "scatter_rows m (view_col index) v
         = Inr (map2 (\<lambda>row k. row[nat k := v]) m index @ drop (length index) m)"
  using assms
proof (induction index arbitrary: m)
  case Nil
  then show ?case by (simp add: view_col_def)
next
  case (Cons k ks)
  then obtain row rows where m: "m = row # rows" by (cases m) auto
  with Cons.prems have "scatter_rows rows (view_col ks) v
         = Inr (map2 (\<lambda>row k. row[nat k := v]) rows ks @ drop (length ks) rows)"
    by (intro Cons.IH) auto
  with Cons.prems m show ?case by (simp add: view_col_def)
qed

lemma scatter_onehot:
  assumes "is_mat (length index) c m"
    and "list_all (\<lambda>k. 0 \<le> k \<and> k < int c) index"
  shows "scatter_inplace (zero_inplace m) (view_col index) 1 = Inr (spec_one_hot c index)"
proof -
  let ?z = "replicate (length index) (replicate c (0::real))"
  have z: "zero_inplace m = ?z" using assms(1) by (rule zero_inplace_replicate)
  have "scatter_rows ?z (view_col index) 1
        = Inr (map2 (\<lambda>row k. row[nat k := 1]) ?z index @ drop (length index) ?z)"
    using assms(2) by (intro scatter_rows_view_col[where c = c]) (auto simp: list_all_iff)
  moreover have "map2 (\<lambda>row k. row[nat k := 1]) ?z index = spec_one_hot c index"
    using assms(2)
    by (intro nth_equalityI) (auto simp: spec_one_hot_def list_all_iff one_hot_row)
  ultimately show ?thesis by (simp add: z scatter_inplace_def view_col_def)
qed

lemma scatter_rows_out_of_range:
  assumes "length index \<le> length m"
    and "list_all (\<lambda>row. length row = c) m"
    and "\<not> list_all (\<lambda>k. 0 \<le> k \<and> k < int c) index"
  shows "scatter_rows m (view_col index) v = Inl IndexOutOfBounds"
  using assms
proof (induction index arbitrary: m)
  case Nil
  then show ?case by simp
next
  case (Cons k ks)
  then obtain row rows where m: "m = row # rows" by (cases m) auto
  show ?case
  proof (cases "0 \<le> k \<and> k < int c")
    case True
    with Cons.prems m have "scatter_rows rows (view_col ks) v = Inl IndexOutOfBounds"
      by (intro Cons.IH) auto
    with True Cons.prems m show ?thesis by (simp add: view_col_def)
  next
    case False
    with Cons.prems m show ?thesis by (auto simp: view_col_def)
  qed
qed

lemma is_mat_spec_one_hot: "is_mat (length index) c (spec_one_hot c index)"
  by (simp add: is_mat_def spec_one_hot_def list_all_iff)

lemma spec_one_hot_nth:
  "r < length index \<Longrightarrow> c < n_c \<Longrightarrow>
   spec_one_hot n_c index ! r ! c = (if int c = index ! r then 1 else 0)"
  by (simp add: spec_one_hot_def)

lemma spec_one_hot_inj:
  assumes "spec_one_hot c i1 = spec_one_hot c i2"
    and "list_all (\<lambda>k. 0 \<le> k \<and> k < int c) i1"
  shows "i1 = i2"
proof (rule nth_equalityI)
  show len: "length i1 = length i2"
    using assms(1) by (auto simp: spec_one_hot_def dest: map_eq_imp_length_eq)
  fix r assume r: "r < length i1"
  then have k: "0 \<le> i1 ! r" "i1 ! r < int c"
    using assms(2) by (auto simp: list_all_length)
  then have c: "nat (i1 ! r) < c" by linarith
  have "spec_one_hot c i1 ! r ! nat (i1 ! r) = spec_one_hot c i2 ! r ! nat (i1 ! r)"
    using assms(1) by simp
  then show "i1 ! r = i2 ! r"
    using r len k c by (simp add: spec_one_hot_nth split: if_splits)
qed

lemma emb_result:
  assumes "is_mat (length index) (output_size self) (storage (cells h (onehot_buffer self)))"
    and "list_all (\<lambda>k. 0 \<le> k \<and> k < int (output_size self)) index"
  shows "emb self h index =
           Inr (if use_cuda self then cuda (filled_heap self h index) (onehot_buffer self)
                else (onehot_buffer self, filled_heap self h index))"
  using scatter_onehot[OF assms] by (simp add: emb_def filled_heap_def Let_def)

lemma cuda_storage:
  "cuda h a = (a', h') \<Longrightarrow> storage (cells h' a') = storage (cells h a)"
  by (auto simp: cuda_def alloc_def split: if_splits)

lemma cuda_keeps_shape:
  "cuda h a = (a', h') \<Longrightarrow> is_mat r c (storage (cells h a)) \<Longrightarrow> is_mat r c (storage (cells h' a))"
  by (auto simp: cuda_def alloc_def split: if_splits)

lemma emb_returns_one_hot:
  assumes "is_mat (length index) (output_size self) (storage (cells h (onehot_buffer self)))"
    and "list_all (\<lambda>k. 0 \<le> k \<and> k < int (output_size self)) index"
  shows "\<exists>a h'. emb self h index = Inr (a, h')
           \<and> storage (cells h' a) = spec_one_hot (output_size self) index
           \<and> is_mat (length index) (output_size self) (storage (cells h' (onehot_buffer self)))"
proof -
  let ?h1 = "filled_heap self h index"
  obtain a h' where c: "(if use_cuda self then cuda ?h1 (onehot_buffer self)
                         else (onehot_buffer self, ?h1)) = (a, h')"
    by (cases "if use_cuda self then cuda ?h1 (onehot_buffer self) else (onehot_buffer self, ?h1)")
  have s1: "storage (cells ?h1 (onehot_buffer self)) = spec_one_hot (output_size self) index"
    by (simp add: filled_heap_def)
  have "storage (cells h' a) = spec_one_hot (output_size self) index"
    using c s1 cuda_storage[of ?h1 "onehot_buffer self" a h'] by (auto split: if_splits)
  moreover have "is_mat (length index) (output_size self) (storage (cells h' (onehot_buffer self)))"
    using c s1 cuda_keeps_shape[of ?h1 "onehot_buffer self" a h' "length index" "output_size self"]
      is_mat_spec_one_hot[of index "output_size self"]
    by (auto split: if_splits)
  ultimately show ?thesis using emb_result[OF assms] c by simp
qed

lemma emb_index_fault:
  assumes "is_mat (batch_size self) (output_size self) (storage (cells h (onehot_buffer self)))"
    and "\<not> list_all (\<lambda>k. 0 \<le> k \<and> k < int (output_size self)) index"
  shows "emb self h index =
           Inl (if batch_size self < length index then ShapeMismatch else IndexOutOfBounds)"
proof (cases "batch_size self < length index")
  case True
  with assms(1) show ?thesis
    by (simp add: emb_def scatter_inplace_def zero_inplace_def view_col_def is_mat_def)
next
  case False
  have "scatter_rows (zero_inplace (storage (cells h (onehot_buffer self)))) (view_col index) 1
        = Inl IndexOutOfBounds"
    using assms False
    by (intro scatter_rows_out_of_range[where c = "output_size self"])
       (auto simp: zero_inplace_def is_mat_def list_all_iff)
  with False assms(1) show ?thesis
    by (simp add: emb_def scatter_inplace_def zero_inplace_def view_col_def is_mat_def)
qed

lemma init_emb_buffer:
  assumes "init_emb dims junk h = (a, h')"
  shows "is_mat (batch_size dims) (output_size dims) (storage (cells h' a))
         \<and> (use_cuda dims \<longrightarrow> device (cells h' a) = CUDA)"
  using assms
  by (auto simp: init_emb_def alloc_def cuda_def Let_def is_mat_def mk_matrix_def list_all_iff
           split: if_splits)

lemma GRU_init_buffer_ok:
  assumes "GRU_init n_in n_h n_out n_l p_h p_i n_b cu tr junk w0 h = Inr (self, h')"
  shows "buffer_ok self h'"
proof -
  let ?dims = "\<lparr>input_size = n_in, hidden_size = n_h, output_size = n_out,
                  num_layers = n_l, dropout_input = p_i, dropout_hidden = p_h,
                  batch_size = n_b, use_cuda = cu\<rparr>"
  obtain a h1 where i: "init_emb ?dims junk h = (a, h1)" by (cases "init_emb ?dims junk h")
  from assms i have "onehot_buffer self = a" "h' = h1" "batch_size self = n_b"
    "output_size self = n_out" "use_cuda self = cu"
    by (auto simp: GRU_init_def split: sum.splits)
  with init_emb_buffer[OF i] show ?thesis by (simp add: buffer_ok_def)
qed

lemma emb_keeps_buffer_ok:
  assumes "buffer_ok self h" and "emb self h index = Inr (a, h')"
    and "length index = batch_size self"
  shows "buffer_ok self h'"
proof -
  have v: "list_all (\<lambda>k. 0 \<le> k \<and> k < int (output_size self)) index"
  proof (rule ccontr)
    assume "\<not> ?thesis"
    with emb_index_fault[of self h index] assms show False by (simp add: buffer_ok_def)
  qed
  have m: "is_mat (length index) (output_size self) (storage (cells h (onehot_buffer self)))"
    using assms by (simp add: buffer_ok_def)
  have dev: "use_cuda self \<Longrightarrow> device (cells h (onehot_buffer self)) = CUDA"
    using assms(1) by (simp add: buffer_ok_def)
  have "h' = filled_heap self h index"
    using emb_result[OF m v] assms(2) dev by (auto simp: cuda_def filled_heap_def split: if_splits)
  then show ?thesis
    using assms(1,3) is_mat_spec_one_hot[of index "output_size self"]
    by (auto simp: buffer_ok_def filled_heap_def)
qed

text \<open>
  Claim C1. On a layer whose buffer has the shape (B, C), \<^verbatim>\<open>emb\<close> of an index vector
  of length B with values in \<open>[0, C)\<close> returns a (B, C) tensor whose entry
  \<open>(r, c)\<close> is 1 if \<open>c = index[r]\<close> and 0 otherwise; a second call on the heap the
  first one left returns the encoding of its own index vector only, so no 1 of the first
  call survives at a position the second call does not set.
\<close>

theorem emb_one_hot:
  assumes "is_mat (batch_size self) (output_size self) (storage (cells h (onehot_buffer self)))"
    and "length i1 = batch_size self"
    and "list_all (\<lambda>k. 0 \<le> k \<and> k < int (output_size self)) i1"
    and "length i2 = batch_size self"
    and "list_all (\<lambda>k. 0 \<le> k \<and> k < int (output_size self)) i2"
  shows "\<exists>a1 h1 a2 h2.
           emb self h i1 = Inr (a1, h1)
         \<and> is_mat (batch_size self) (output_size self) (storage (cells h1 a1))
         \<and> (\<forall>r < batch_size self. \<forall>c < output_size self.
               storage (cells h1 a1) ! r ! c = (if int c = i1 ! r then 1 else 0))
         \<and> emb self h1 i2 = Inr (a2, h2)
         \<and> is_mat (batch_size self) (output_size self) (storage (cells h2 a2))
         \<and> (\<forall>r < batch_size self. \<forall>c < output_size self.
               storage (cells h2 a2) ! r ! c = (if int c = i2 ! r then 1 else 0))"
proof -
  from emb_returns_one_hot[of i1 self h] assms obtain a1 h1 where
    1: "emb self h i1 = Inr (a1, h1)"
       "storage (cells h1 a1) = spec_one_hot (output_size self) i1"
       "is_mat (batch_size self) (output_size self) (storage (cells h1 (onehot_buffer self)))"
    by auto
  from emb_returns_one_hot[of i2 self h1] assms 1(3) obtain a2 h2 where
    2: "emb self h1 i2 = Inr (a2, h2)"
       "storage (cells h2 a2) = spec_one_hot (output_size self) i2"
    by auto
  show ?thesis
    using 1 2 assms(2,4) is_mat_spec_one_hot[of i1 "output_size self"]
      is_mat_spec_one_hot[of i2 "output_size self"]
    by (simp add: spec_one_hot_nth)
qed

text \<open>
  Claim C8. When some value of the index vector is outside \<open>[0, C)\<close>, \<^verbatim>\<open>emb\<close>
  returns no result: it fails with the index fault (for a vector of at most B entries;
  a longer vector is rejected for its shape). No index is truncated or wrapped.
\<close>

theorem emb_out_of_range:
  assumes "is_mat (batch_size self) (output_size self) (storage (cells h (onehot_buffer self)))"
    and "\<not> list_all (\<lambda>k. 0 \<le> k \<and> k < int (output_size self)) index"
  shows "emb self h index =
           Inl (if batch_size self < length index then ShapeMismatch else IndexOutOfBounds)"
  using assms by (rule emb_index_fault)

text \<open>
  Claim C10. Both calls of \<^verbatim>\<open>emb\<close> return the address of the layer's one buffer and
  allocate nothing; after the second call the object the first call returned holds the
  encoding of the second index vector, which differs from the encoding of the first one
  whenever the two index vectors differ.
\<close>

theorem emb_aliases_buffer:
  assumes "buffer_ok self h"
    and "length i1 = batch_size self"
    and "list_all (\<lambda>k. 0 \<le> k \<and> k < int (output_size self)) i1"
    and "length i2 = batch_size self"
    and "list_all (\<lambda>k. 0 \<le> k \<and> k < int (output_size self)) i2"
  shows "\<exists>a1 h1 a2 h2.
           emb self h i1 = Inr (a1, h1) \<and> emb self h1 i2 = Inr (a2, h2)
         \<and> a1 = onehot_buffer self \<and> a2 = a1
         \<and> next_free h2 = next_free h
         \<and> storage (cells h1 a1) = spec_one_hot (output_size self) i1
         \<and> storage (cells h2 a1) = spec_one_hot (output_size self) i2
         \<and> (i1 \<noteq> i2 \<longrightarrow> storage (cells h2 a1) \<noteq> spec_one_hot (output_size self) i1)"
proof -
  let ?b = "onehot_buffer self"
  let ?h1 = "filled_heap self h i1"
  let ?h2 = "filled_heap self ?h1 i2"
  have dev: "use_cuda self \<Longrightarrow> device (cells h ?b) = CUDA"
    using assms(1) by (simp add: buffer_ok_def)
  have e1: "emb self h i1 = Inr (?b, ?h1)"
    using emb_result[of i1 self h] assms dev
    by (auto simp: buffer_ok_def cuda_def filled_heap_def)
  have m1: "is_mat (length i2) (output_size self) (storage (cells ?h1 ?b))"
    using is_mat_spec_one_hot[of i1 "output_size self"] assms(2,4) by (simp add: filled_heap_def)
  have e2: "emb self ?h1 i2 = Inr (?b, ?h2)"
    using emb_result[OF m1 assms(5)] dev by (auto simp: cuda_def filled_heap_def)
  have neq: "i1 \<noteq> i2 \<Longrightarrow> spec_one_hot (output_size self) i2 \<noteq> spec_one_hot (output_size self) i1"
    using spec_one_hot_inj[OF _ assms(3), of i2] by auto
  show ?thesis using e1 e2 neq by (auto simp: filled_heap_def)
qed

section \<open>The concrete layers\<close>

lemma demo_built_eq: "demo_built = Inr (demo_layer, demo_heap)"
  by (simp add: demo_layer_def demo_heap_def demo_built_def GRU_init_def new_nnGRU_def init_emb_def alloc_def Let_def)

lemma demo_fields:
  "batch_size demo_layer = 2" "output_size demo_layer = 5" "use_cuda demo_layer = False"
  "onehot_buffer demo_layer = 0" "input_size demo_layer = 4" "hidden_size demo_layer = 3"
  "num_layers demo_layer = 1" "training demo_layer = True" "dropout_input demo_layer = 0"
  by (simp_all add: demo_layer_def demo_heap_def demo_built_def GRU_init_def new_nnGRU_def init_emb_def alloc_def Let_def empty_heap_def)

lemma demo_buffer_ok: "buffer_ok demo_layer demo_heap"
  using demo_built_eq unfolding demo_built_def by (rule GRU_init_buffer_ok)

lemma upt_2: "[0..<2] = [0, 1]" by (simp add: upt_rec)

lemma demo_grad_flags: "grad_flags demo_layer = [True, True, True, True, True, True]"
  by (simp add: demo_layer_def demo_built_def GRU_init_def new_nnGRU_def init_emb_def
      alloc_def Let_def grad_flags_def weights_flags_def new_Linear_def new_weights_def
      new_param_def)

lemma stacked_not_failed: "\<not> isl stacked_built"
  by (simp add: stacked_built_def GRU_init_def new_nnGRU_def init_emb_def alloc_def Let_def)

lemma stacked_training: "training stacked_layer = False"
  by (simp add: stacked_layer_def stacked_built_def GRU_init_def new_nnGRU_def init_emb_def
      alloc_def Let_def)

lemma stacked_grad_flags: "grad_flags stacked_layer = replicate 10 True"
  by (simp add: stacked_layer_def stacked_built_def GRU_init_def new_nnGRU_def init_emb_def
      alloc_def Let_def grad_flags_def weights_flags_def new_Linear_def new_weights_def
      new_param_def upt_2 eval_nat_numeral)

lemma frozen_grad_flags: "grad_flags frozen_layer = [True, False, True, True, True, True]"
  using demo_grad_flags
  by (simp add: frozen_layer_def grad_flags_def with_grad_def)

lemma frozen_training: "training frozen_layer = True"
  by (simp add: frozen_layer_def demo_fields)

section \<open>Witnesses for the one-hot embedding\<close>

theorem emb_one_hot_witness:
  "is_mat (batch_size demo_layer) (output_size demo_layer)
     (storage (cells demo_heap (onehot_buffer demo_layer)))
   \<and> length [2, 4 :: int] = batch_size demo_layer
   \<and> list_all (\<lambda>k. 0 \<le> k \<and> k < int (output_size demo_layer)) [2, 4]
   \<and> length [4, 0 :: int] = batch_size demo_layer
   \<and> list_all (\<lambda>k. 0 \<le> k \<and> k < int (output_size demo_layer)) [4, 0]
   \<and> (\<exists>a1 h1 a2 h2.
           emb demo_layer demo_heap [2, 4] = Inr (a1, h1)
         \<and> is_mat (batch_size demo_layer) (output_size demo_layer) (storage (cells h1 a1))
         \<and> (\<forall>r < batch_size demo_layer. \<forall>c < output_size demo_layer.
               storage (cells h1 a1) ! r ! c = (if int c = [2, 4] ! r then 1 else 0))
         \<and> emb demo_layer h1 [4, 0] = Inr (a2, h2)
         \<and> is_mat (batch_size demo_layer) (output_size demo_layer) (storage (cells h2 a2))
         \<and> (\<forall>r < batch_size demo_layer. \<forall>c < output_size demo_layer.
               storage (cells h2 a2) ! r ! c = (if int c = [4, 0] ! r then 1 else 0)))"
proof -
  have b: "is_mat (batch_size demo_layer) (output_size demo_layer)
     (storage (cells demo_heap (onehot_buffer demo_layer)))"
    using demo_buffer_ok by (simp add: buffer_ok_def)
  have l1: "length [2, 4 :: int] = batch_size demo_layer" by (simp add: demo_fields)
  have v1: "list_all (\<lambda>k. 0 \<le> k \<and> k < int (output_size demo_layer)) [2, 4]"
    by (simp add: demo_fields)
  have l2: "length [4, 0 :: int] = batch_size demo_layer" by (simp add: demo_fields)
  have v2: "list_all (\<lambda>k. 0 \<le> k \<and> k < int (output_size demo_layer)) [4, 0]"
    by (simp add: demo_fields)
  from emb_one_hot[OF b l1 v1 l2 v2] b l1 v1 l2 v2 show ?thesis by blast
qed

theorem emb_out_of_range_witness:
  "is_mat (batch_size demo_layer) (output_size demo_layer)
     (storage (cells demo_heap (onehot_buffer demo_layer)))
   \<and> \<not> list_all (\<lambda>k. 0 \<le> k \<and> k < int (output_size demo_layer)) [2, 5]
   \<and> emb demo_layer demo_heap [2, 5] = Inl IndexOutOfBounds
   \<and> \<not> list_all (\<lambda>k. 0 \<le> k \<and> k < int (output_size demo_layer)) [-1, 0]
   \<and> emb demo_layer demo_heap [-1, 0] = Inl IndexOutOfBounds"
proof -
  have b: "is_mat (batch_size demo_layer) (output_size demo_layer)
     (storage (cells demo_heap (onehot_buffer demo_layer)))"
    using demo_buffer_ok by (simp add: buffer_ok_def)
  have v1: "\<not> list_all (\<lambda>k. 0 \<le> k \<and> k < int (output_size demo_layer)) [2, 5]"
    by (simp add: demo_fields)
  have v2: "\<not> list_all (\<lambda>k. 0 \<le> k \<and> k < int (output_size demo_layer)) [-1, 0]"
    by (simp add: demo_fields)
  from emb_out_of_range[OF b v1] emb_out_of_range[OF b v2] b v1 v2 show ?thesis
    by (simp add: demo_fields)
qed

theorem emb_aliases_buffer_witness:
  "buffer_ok demo_layer demo_heap
   \<and> length [2, 4 :: int] = batch_size demo_layer
   \<and> list_all (\<lambda>k. 0 \<le> k \<and> k < int (output_size demo_layer)) [2, 4]
   \<and> length [4, 0 :: int] = batch_size demo_layer
   \<and> list_all (\<lambda>k. 0 \<le> k \<and> k < int (output_size demo_layer)) [4, 0]
   \<and> (\<exists>h1 h2.
          emb demo_layer demo_heap [2, 4] = Inr (onehot_buffer demo_layer, h1)
        \<and> emb demo_layer h1 [4, 0] = Inr (onehot_buffer demo_layer, h2)
        \<and> storage (cells h1 (onehot_buffer demo_layer)) = [[0, 0, 1, 0, 0], [0, 0, 0, 0, 1]]
        \<and> storage (cells h2 (onehot_buffer demo_layer)) = [[0, 0, 0, 0, 1], [1, 0, 0, 0, 0]])"
proof -
  have l1: "length [2, 4 :: int] = batch_size demo_layer" by (simp add: demo_fields)
  have v1: "list_all (\<lambda>k. 0 \<le> k \<and> k < int (output_size demo_layer)) [2, 4]"
    by (simp add: demo_fields)
  have l2: "length [4, 0 :: int] = batch_size demo_layer" by (simp add: demo_fields)
  have v2: "list_all (\<lambda>k. 0 \<le> k \<and> k < int (output_size demo_layer)) [4, 0]"
    by (simp add: demo_fields)
  have s1: "spec_one_hot (output_size demo_layer) [2, 4] = [[0, 0, 1, 0, 0], [0, 0, 0, 0, 1]]"
    by (simp add: spec_one_hot_def demo_fields upt_rec)
  have s2: "spec_one_hot (output_size demo_layer) [4, 0] = [[0, 0, 0, 0, 1], [1, 0, 0, 0, 0]]"
    by (simp add: spec_one_hot_def demo_fields upt_rec)
  from emb_aliases_buffer[OF demo_buffer_ok l1 v1 l2 v2] demo_buffer_ok l1 v1 l2 v2 s1 s2
  show ?thesis by auto
qed

section \<open>Properties of the mode switch\<close>

lemma weights_flags_with_grad: "weights_flags (weights_with_grad b w) = replicate 4 b"
  by (simp add: weights_flags_def weights_with_grad_def with_grad_def numeral_eq_Suc)

lemma concat_flags_with_grad:
  "concat (map (weights_flags \<circ> weights_with_grad b) ws) = replicate (4 * length ws) b"
  by (induction ws) (simp_all add: weights_flags_with_grad replicate_add[symmetric])

lemma length_concat_flags: "length (concat (map weights_flags ws)) = 4 * length ws"
  by (induction ws) (simp_all add: weights_flags_def)

lemma grad_flags_set:
  "grad_flags (set_requires_grad self b) = replicate (length (grad_flags self)) b"
proof -
  have "grad_flags (set_requires_grad self b)
        = [b, b] @ concat (map weights_flags (map (weights_with_grad b) (all_weights (gru self))))"
    by (simp add: grad_flags_def set_requires_grad_def with_grad_def)
  also have "\<dots> = replicate 2 b @ replicate (4 * length (all_weights (gru self))) b"
    by (simp add: concat_flags_with_grad numeral_2_eq_2)
  also have "\<dots> = replicate (2 + 4 * length (all_weights (gru self))) b"
    by (simp only: replicate_add)
  also have "2 + 4 * length (all_weights (gru self)) = length (grad_flags self)"
    by (simp add: grad_flags_def length_concat_flags)
  finally show ?thesis .
qed

lemma switch_mode_fst:
  "fst (switch_mode self) =
     (set_requires_grad (self\<lparr>training := \<not> training self\<rparr>) (\<not> training self))
       \<lparr>gru := train (gru (set_requires_grad (self\<lparr>training := \<not> training self\<rparr>) (\<not> training self)))
                (\<not> training self)\<rparr>"
  by (simp add: switch_mode_def Let_def set_requires_grad_def)

lemma grad_flags_gru_training:
  "grad_flags (s\<lparr>gru := train (gru s) b\<rparr>) = grad_flags s"
  by (simp add: grad_flags_def train_def)

lemma grad_flags_training_update:
  "grad_flags (s\<lparr>training := b\<rparr>) = grad_flags s"
  by (simp add: grad_flags_def)

lemma switch_mode_training: "training (fst (switch_mode self)) = (\<not> training self)"
  by (simp add: switch_mode_fst set_requires_grad_def)

lemma switch_mode_flags:
  "grad_flags (fst (switch_mode self)) = replicate (length (grad_flags self)) (\<not> training self)"
  by (simp add: switch_mode_fst grad_flags_gru_training grad_flags_set grad_flags_training_update)

lemma switch_mode_gru_training:
  "gru_training (gru (fst (switch_mode self))) = (\<not> training self)"
  by (simp add: switch_mode_fst train_def)

lemma flags_all_eq:
  "list_all (\<lambda>f. f = b) fs \<Longrightarrow> fs = replicate (length fs) b"
  by (induction fs) auto

text \<open>
  Claim C7. After \<^verbatim>\<open>switch_mode\<close> the stored mode flag is the negation of the old one,
  the gradient-tracking flag of every learnable parameter equals the new mode flag, and
  the recurrent stack's own mode equals the new mode flag: one state transition does all
  three. The line it prints names the new mode.
\<close>

theorem switch_mode_consistent:
  "training (fst (switch_mode self)) = (\<not> training self)
   \<and> grad_flags (fst (switch_mode self))
       = replicate (length (grad_flags self)) (training (fst (switch_mode self)))
   \<and> gru_training (gru (fst (switch_mode self))) = training (fst (switch_mode self))
   \<and> snd (switch_mode self)
       = (if training self then ''Switching into Testing mode.''
          else ''Switching into Training mode.'')"
  by (simp add: switch_mode_training switch_mode_flags switch_mode_gru_training)
     (simp add: switch_mode_def Let_def)

text \<open>
  Claim C6, as amended. Two calls of \<^verbatim>\<open>switch_mode\<close> restore the mode flag and leave
  the gradient-tracking flag of every parameter (and the mode of the recurrent stack)
  equal to that original mode flag; so the flags are restored whenever each of them
  agreed with the mode flag before the first call.
\<close>

theorem switch_mode_twice:
  "training (switch_twice self) = training self
   \<and> gru_training (gru (switch_twice self)) = training self
   \<and> grad_flags (switch_twice self) = replicate (length (grad_flags self)) (training self)
   \<and> (list_all (\<lambda>f. f = training self) (grad_flags self)
        \<longrightarrow> grad_flags (switch_twice self) = grad_flags self)"
  using flags_all_eq[of "training self" "grad_flags self"]
  by (simp add: switch_twice_def switch_mode_training switch_mode_flags switch_mode_gru_training)

theorem switch_mode_twice_witness:
  "list_all (\<lambda>f. f = training demo_layer) (grad_flags demo_layer)
   \<and> training (switch_twice demo_layer) = training demo_layer
   \<and> grad_flags (switch_twice demo_layer) = grad_flags demo_layer"
  using switch_mode_twice[of demo_layer] by (simp add: demo_grad_flags demo_fields)

text \<open>
  The claim as stated fails where a flag disagrees with the mode: on the layer
  \<^verbatim>\<open>__init__\<close> builds with \<^verbatim>\<open>training=False\<close> (all ten flags are on, and off after
  two calls), and on a training-mode layer with one frozen parameter (two calls switch
  its flag on).
\<close>

theorem switch_mode_twice_counterexample:
  "\<not> isl stacked_built \<and> training stacked_layer = False
   \<and> grad_flags stacked_layer = replicate 10 True
   \<and> grad_flags (fst (switch_mode (fst (switch_mode stacked_layer)))) = replicate 10 False
   \<and> grad_flags frozen_layer = [True, False, True, True, True, True]
   \<and> grad_flags (fst (switch_mode (fst (switch_mode frozen_layer)))) = replicate 6 True"
  by (simp add: stacked_not_failed stacked_training stacked_grad_flags frozen_grad_flags
      frozen_training switch_mode_flags switch_mode_training eval_nat_numeral)

section \<open>Hidden-state initialisation\<close>

lemma concat_replicate_replicate: "concat (replicate n (replicate m x)) = replicate (n * m) x"
  by (induction n) (simp_all add: replicate_add)

text \<open>
  Claim C9. \<^verbatim>\<open>init_hidden\<close> is the all-zero tensor of shape (L, B, H), determined by
  the layer's \<open>num_layers\<close>, \<open>batch_size\<close> and \<open>hidden_size\<close> alone: it takes no
  heap, no input and no other field of the layer.
\<close>

theorem init_hidden_zeros:
  "init_hidden self
     = replicate (num_layers self) (replicate (batch_size self) (replicate (hidden_size self) 0))
   \<and> is_tensor3 (num_layers self) (batch_size self) (hidden_size self) (init_hidden self)
   \<and> concat (concat (init_hidden self))
       = replicate (num_layers self * batch_size self * hidden_size self) 0"
  by (simp add: init_hidden_def is_tensor3_def is_mat_def list_all_iff
      concat_replicate_replicate)

section \<open>Shapes through the recurrent stack\<close>

lemma is_mat_lengths: "is_mat r c m \<longleftrightarrow> map length m = replicate r c"
  by (auto simp: is_mat_def list_eq_iff_nth_eq list_all_length)

lemma is_tensor3_lengths:
  "is_tensor3 l r c t \<longleftrightarrow> map (map length) t = replicate l (replicate r c)"
  by (auto simp: is_tensor3_def is_mat_lengths list_eq_iff_nth_eq list_all_length)

lemma length_linear: "length (linear w b x) = min (length w) (length b)"
  by (simp add: linear_def)

lemma length_gru_cell:
  assumes "gate_rows n w" and "length h = n"
  shows "length (gru_cell w x h) = n"
  using assms by (simp add: gru_cell_def gate_rows_def Let_def length_linear)

lemma gru_step_shape:
  assumes "gate_rows n w" and "length x = b" and "is_mat b n h"
  shows "is_mat b n (map2 (gru_cell w) x h)"
  using assms
  by (auto simp: is_mat_def list_all_iff length_gru_cell dest!: set_zip_rightD)

lemma gru_layer_shape:
  assumes "gate_rows n w" and "list_all (\<lambda>x. length x = b) xs" and "is_mat b n h"
    and "gru_layer w xs h = (ys, hT)"
  shows "is_tensor3 (length xs) b n ys \<and> is_mat b n hT"
  using assms(2-)
proof (induction xs arbitrary: h ys hT)
  case Nil
  then show ?case by (simp add: is_tensor3_def)
next
  case (Cons x xs)
  let ?h1 = "map2 (gru_cell w) x h"
  obtain ys' hT' where r: "gru_layer w xs ?h1 = (ys', hT')" by (cases "gru_layer w xs ?h1")
  have h1: "is_mat b n ?h1" using Cons.prems assms(1) by (intro gru_step_shape) auto
  from Cons.IH[OF _ h1 r] Cons.prems have "is_tensor3 (length xs) b n ys' \<and> is_mat b n hT'" by simp
  with Cons.prems r h1 show ?case by (auto simp: is_tensor3_def)
qed

lemma bernoulli_rows_lengths:
  "bernoulli_rows g ps = (m, g') \<Longrightarrow> map length m = map length ps"
proof (induction ps arbitrary: g m g')
  case Nil
  then show ?case by simp
next
  case (Cons q ps)
  obtain rest g2 where r: "bernoulli_rows (\<lambda>i. g (length q + i)) ps = (rest, g2)"
    by (cases "bernoulli_rows (\<lambda>i. g (length q + i)) ps")
  from Cons.IH[OF r] Cons.prems r show ?case by (auto simp: draws_def)
qed

lemma map2_rows_lengths:
  "map length m = map length x \<Longrightarrow> map length (map2 (map2 f) x m) = map length x"
proof (induction x arbitrary: m)
  case Nil
  then show ?case by simp
next
  case (Cons a x)
  then show ?case by (cases m) auto
qed

lemma dropout_mat_lengths:
  assumes "dropout_mat p g x = (y, g')"
  shows "map length y = map length x"
proof -
  obtain mask g1 where b: "bernoulli_rows g (map (map (\<lambda>_. 1 - p)) x) = (mask, g1)"
    by (cases "bernoulli_rows g (map (map (\<lambda>_. 1 - p)) x)")
  from bernoulli_rows_lengths[OF b] have m: "map length mask = map length x"
    by (simp add: comp_def)
  have y: "y = (if p = 1 then map (map (\<lambda>_. 0)) x
                else map2 (map2 (\<lambda>a m. a * m / (1 - p))) x mask)"
    using assms b by (simp add: dropout_mat_def)
  show ?thesis
  proof (cases "p = 1")
    case True
    with y show ?thesis by (simp add: comp_def)
  next
    case False
    with y have "y = map2 (map2 (\<lambda>a m. a * m / (1 - p))) x mask" by simp
    with map2_rows_lengths[OF m] show ?thesis by simp
  qed
qed

lemma dropout3_shape:
  "dropout3 p g xs = (ys, g') \<Longrightarrow> map (map length) ys = map (map length) xs"
proof (induction xs arbitrary: g ys g')
  case Nil
  then show ?case by simp
next
  case (Cons x xs)
  obtain y g1 where d: "dropout_mat p g x = (y, g1)" by (cases "dropout_mat p g x")
  obtain ys' g2 where r: "dropout3 p g1 xs = (ys', g2)" by (cases "dropout3 p g1 xs")
  from Cons.prems d r have "ys = y # ys'" by simp
  with dropout_mat_lengths[OF d] Cons.IH[OF r] show ?case by simp
qed

lemma gru_stack_shape:
  assumes "list_all (\<lambda>(w, h0). gate_rows n w \<and> is_mat b n h0) pairs"
    and "pairs \<noteq> []"
    and "list_all (\<lambda>x. length x = b) xs"
    and "gru_stack tr p g pairs xs = ((out, hs), g')"
  shows "is_tensor3 (length xs) b n out \<and> is_tensor3 (length pairs) b n hs"
  using assms
proof (induction pairs arbitrary: g xs out hs g')
  case Nil
  then show ?case by simp
next
  case (Cons wh rest)
  obtain w h0 where wh: "wh = (w, h0)" by (cases wh)
  obtain ys hT where l: "gru_layer w xs h0 = (ys, hT)" by (cases "gru_layer w xs h0")
  have ok: "gate_rows n w" "is_mat b n h0" using Cons.prems(1) wh by auto
  from gru_layer_shape[OF ok(1) Cons.prems(3) ok(2) l]
  have ys: "is_tensor3 (length xs) b n ys" and hT: "is_mat b n hT" by auto
  let ?d = "if rest \<noteq> [] \<and> tr \<and> p \<noteq> 0 then dropout3 p g ys else (ys, g)"
  obtain ys1 g1 where d: "?d = (ys1, g1)" by (cases ?d)
  have ys1: "is_tensor3 (length xs) b n ys1"
    using d ys dropout3_shape[of p g ys ys1 g1] by (auto simp: is_tensor3_lengths split: if_splits)
  obtain out' hs' g2 where s: "gru_stack tr p g1 rest ys1 = ((out', hs'), g2)"
    by (cases "gru_stack tr p g1 rest ys1") auto
  from Cons.prems(4) wh l d s have res: "out = out'" "hs = hT # hs'"
    by (auto simp del: dropout3.simps)
  show ?case
  proof (cases "rest = []")
    case True
    with s have "out' = ys1" "hs' = []" by auto
    with res ys1 hT True show ?thesis by (simp add: is_tensor3_def)
  next
    case False
    have rows: "list_all (\<lambda>x. length x = b) ys1"
      using ys1 by (auto simp: is_tensor3_def is_mat_def list_all_iff)
    have len: "length ys1 = length xs" using ys1 by (simp add: is_tensor3_def)
    from Cons.IH[OF _ False rows s] Cons.prems(1)
    have "is_tensor3 (length ys1) b n out' \<and> is_tensor3 (length rest) b n hs'" by simp
    with res hT len show ?thesis by (simp add: is_tensor3_def)
  qed
qed

section \<open>Input dropout\<close>

lemma bernoulli_rows_column:
  "bernoulli_rows g (replicate n [q]) = (map (\<lambda>i. [coin (g i) q]) [0..<n], \<lambda>i. g (n + i))"
proof (induction n arbitrary: g)
  case 0
  then show ?case by simp
next
  case (Suc n)
  have "map (\<lambda>i. [coin (g i) q]) [0..<Suc n]
        = [coin (g 0) q] # map (\<lambda>i. [coin (g (Suc i)) q]) [0..<n]"
    by (simp add: upt_conv_Cons map_Suc_upt[symmetric] del: upt_Suc)
  moreover have "draws g (length [q]) = ([g 0], \<lambda>i. g (Suc i))"
    by (simp add: draws_def)
  ultimately show ?case using Suc[of "\<lambda>i. g (Suc i)"] by (simp del: upt_Suc)
qed

lemma expand_mul_rows:
  "mul e (expand_as (map (\<lambda>i. [c i]) [0..<length e]) e)
   = map (\<lambda>i. map (\<lambda>x. x * c i) (e ! i)) [0..<length e]"
proof (rule nth_equalityI)
  show "length (mul e (expand_as (map (\<lambda>i. [c i]) [0..<length e]) e))
        = length (map (\<lambda>i. map (\<lambda>x. x * c i) (e ! i)) [0..<length e])"
    by (simp add: mul_def expand_as_def)
next
  fix i assume "i < length (mul e (expand_as (map (\<lambda>i. [c i]) [0..<length e]) e))"
  then have i: "i < length e" by (simp add: mul_def expand_as_def)
  have "map2 (*) (e ! i) (replicate (length (e ! i)) (c i)) = map (\<lambda>x. x * c i) (e ! i)"
    by (intro nth_equalityI) auto
  with i show "mul e (expand_as (map (\<lambda>i. [c i]) [0..<length e]) e) ! i
        = map (\<lambda>i. map (\<lambda>x. x * c i) (e ! i)) [0..<length e] ! i"
    by (simp add: mul_def expand_as_def)
qed

lemma input_dropout_training:
  assumes "training self" and "0 \<le> dropout_input self" and "dropout_input self \<le> 1"
  shows "input_dropout self g embedded
         = Inr (map (\<lambda>i. map (\<lambda>x. x * coin (g i) (1 - dropout_input self)) (embedded ! i))
                  [0..<length embedded],
                \<lambda>i. g (length embedded + i))"
proof -
  have "bernoulli g (replicate (length embedded) [1 - dropout_input self])
        = Inr (bernoulli_rows g (replicate (length embedded) [1 - dropout_input self]))"
    using assms(2,3) by (simp add: bernoulli_def list_all_iff)
  then show ?thesis
    using assms(1) by (simp add: input_dropout_def bernoulli_rows_column expand_mul_rows)
qed

lemma input_dropout_inference:
  "\<not> training self \<Longrightarrow> input_dropout self g embedded = Inr (embedded, g)"
  by (simp add: input_dropout_def)

lemma input_dropout_shape:
  assumes "input_dropout self g embedded = Inr (e1, g1)" and "is_mat b c embedded"
  shows "is_mat b c e1"
proof (cases "training self")
  case False
  with assms show ?thesis by (simp add: input_dropout_def)
next
  case True
  have b: "bernoulli g (replicate (length embedded) [1 - dropout_input self])
        = Inr (bernoulli_rows g (replicate (length embedded) [1 - dropout_input self]))"
    using assms(1) True by (auto simp: input_dropout_def bernoulli_def Let_def split: if_splits)
  have "e1 = map (\<lambda>i. map (\<lambda>x. x * coin (g i) (1 - dropout_input self)) (embedded ! i))
                  [0..<length embedded]"
    using assms(1) True b
    by (simp add: input_dropout_def bernoulli_rows_column expand_mul_rows)
  with assms(2) show ?thesis by (auto simp: is_mat_def list_all_length)
qed

section \<open>Shapes and columns of the forward step\<close>

lemma weights_ok_gate_rows: "weights_ok n_in n_h w \<Longrightarrow> gate_rows n_h w"
  by (simp add: weights_ok_def gate_rows_def is_mat_def)

lemma params_ok_gate_rows:
  assumes "params_ok self" and "w \<in> set (all_weights (gru self))"
  shows "gate_rows (hidden_size self) w"
  using assms
  by (auto simp: params_ok_def list_all_iff split: list.splits dest: weights_ok_gate_rows)

lemma gru_forward_shape:
  assumes "params_ok self" and "is_mat b (input_size self) e"
    and "is_tensor3 (num_layers self) b (hidden_size self) hidden"
  shows "\<exists>out hid g'. gru_forward (gru self) g [e] hidden = Inr (([out], hid), g')
           \<and> is_mat b (hidden_size self) out
           \<and> is_tensor3 (num_layers self) b (hidden_size self) hid"
proof -
  let ?pairs = "zip (all_weights (gru self)) hidden"
  let ?m = "gru self"
  obtain outs hid g' where s:
    "gru_stack (gru_training ?m) (gru_dropout ?m) g ?pairs [e] = ((outs, hid), g')"
    by (cases "gru_stack (gru_training ?m) (gru_dropout ?m) g ?pairs [e]") auto
  have len: "length (all_weights ?m) = num_layers self" "length hidden = num_layers self"
    using assms(1,3) by (simp_all add: params_ok_def is_tensor3_def)
  have ne: "all_weights ?m \<noteq> []" using assms(1) by (auto simp: params_ok_def)
  have pairs: "list_all (\<lambda>(w, h0). gate_rows (hidden_size self) w \<and> is_mat b (hidden_size self) h0) ?pairs"
    using assms(3) params_ok_gate_rows[OF assms(1)]
    by (auto simp: list_all_iff is_tensor3_def dest: set_zip_leftD set_zip_rightD)
  have pne: "?pairs \<noteq> []" using len ne by (cases "all_weights ?m"; cases hidden) auto
  have rows: "list_all (\<lambda>x. length x = b) [e]" using assms(2) by (simp add: is_mat_def)
  from gru_stack_shape[OF pairs pne rows s]
  have o: "is_tensor3 1 b (hidden_size self) outs" and h: "is_tensor3 (length ?pairs) b (hidden_size self) hid"
    by auto
  from o obtain out where out: "outs = [out]" "is_mat b (hidden_size self) out"
    by (cases outs) (auto simp: is_tensor3_def)
  have "gru_forward ?m g [e] hidden = Inr ((outs, hid), g')"
    using assms s by (simp add: gru_forward_def params_ok_def is_tensor3_def is_mat_def)
  with out h len show ?thesis by simp
qed

lemma linear_forward_shape:
  assumes "in_features l = n_in" and "is_mat n_out n_in (data (weight l))"
    and "length (data (bias l)) = n_out" and "is_mat b n_in x"
  shows "\<exists>y. linear_forward l x = Inr y \<and> is_mat b n_out y"
  using assms by (auto simp: linear_forward_def is_mat_def list_all_iff length_linear)

lemma full_logits_shape:
  assumes "params_ok self" and "is_mat b (input_size self) e"
    and "is_tensor3 (num_layers self) b (hidden_size self) hidden"
  shows "\<exists>full hid g'. full_logits self g e hidden = Inr ((full, hid), g')
           \<and> is_mat b (output_size self) full
           \<and> is_tensor3 (num_layers self) b (hidden_size self) hid"
proof -
  from gru_forward_shape[OF assms, of g] obtain out hid g' where
    f: "gru_forward (gru self) g [e] hidden = Inr (([out], hid), g')"
       "is_mat b (hidden_size self) out"
       "is_tensor3 (num_layers self) b (hidden_size self) hid"
    by blast
  have "\<exists>y. linear_forward (h2o self) out = Inr y \<and> is_mat b (output_size self) y"
    using assms(1) f(2) by (intro linear_forward_shape[where n_in = "hidden_size self"])
      (auto simp: params_ok_def)
  then obtain y where y: "linear_forward (h2o self) out = Inr y" "is_mat b (output_size self) y"
    by blast
  have "is_mat b (output_size self) (map (map tanh) y)"
    using y(2) by (auto simp: is_mat_def list_all_iff)
  with f y show ?thesis by (simp add: full_logits_def)
qed

lemma index_columns_valid:
  assumes "list_all (\<lambda>k. 0 \<le> k \<and> k < int n_c) target"
  shows "index_columns n_c logit target = Inr (map (\<lambda>row. map (\<lambda>k. row ! nat k) target) logit)"
proof -
  have "list_all (\<lambda>k. - int n_c \<le> k \<and> k < int n_c) target"
    using assms by (auto simp: list_all_iff)
  moreover have "map (\<lambda>k. row ! wrap_index n_c k) target = map (\<lambda>k. row ! nat k) target" for row :: vec
    using assms by (auto simp: list_all_iff wrap_index_def)
  ultimately show ?thesis by (simp add: index_columns_def)
qed

lemma is_mat_index_columns:
  "is_mat (length logit) (length target) (map (\<lambda>row. map (\<lambda>k. row ! nat k) target) logit)"
  by (simp add: is_mat_def list_all_iff)

lemma is_mat_mk_matrix: "is_mat r c (mk_matrix r c f)"
  by (simp add: is_mat_def mk_matrix_def list_all_iff)

lemma weights_ok_new_weights:
  "weights_ok (if l = 0 then n_in else n_h) n_h (new_weights n_in n_h w0 l)"
  by (simp add: weights_ok_def new_weights_def new_param_def is_mat_mk_matrix)

lemma GRU_init_params_ok:
  assumes "GRU_init n_in n_h n_out n_l p_h p_i n_b cu tr junk w0 h = Inr (self, h')"
  shows "params_ok self"
proof -
  obtain m where m: "new_nnGRU n_in n_h n_l p_h w0 = Inr m"
    using assms by (auto simp: GRU_init_def split: prod.splits sum.splits)
  then have pos: "0 < n_l"
    and mm: "m = \<lparr>gru_input_size = n_in, gru_hidden_size = n_h, gru_num_layers = n_l,
                gru_dropout = p_h, gru_training = True,
                all_weights = map (new_weights n_in n_h w0) [0..<n_l]\<rparr>"
    by (auto simp: new_nnGRU_def split: if_splits)
  have self: "input_size self = n_in" "hidden_size self = n_h" "output_size self = n_out"
    "num_layers self = n_l" "h2o self = new_Linear n_h n_out w0" "gru self = m"
    using assms m by (auto simp: GRU_init_def split: prod.splits)
  have up: "[0..<n_l] = 0 # [Suc 0..<n_l]" using pos by (simp add: upt_conv_Cons)
  have first: "weights_ok n_in n_h (new_weights n_in n_h w0 0)"
    using weights_ok_new_weights[of 0 n_in n_h w0] by simp
  have rest: "list_all (weights_ok n_h n_h) (map (new_weights n_in n_h w0) [Suc 0..<n_l])"
  proof -
    have "weights_ok n_h n_h (new_weights n_in n_h w0 l)" if "l \<in> set [Suc 0..<n_l]" for l
      using weights_ok_new_weights[of l n_in n_h w0] that by auto
    then show ?thesis by (simp add: list_all_iff)
  qed
  have aw: "all_weights m = new_weights n_in n_h w0 0 # map (new_weights n_in n_h w0) [Suc 0..<n_l]"
    using mm up by simp
  have len: "length (all_weights m) = n_l" using mm by simp
  show ?thesis
    unfolding params_ok_def self
    using first rest aw len mm
    by (simp add: new_Linear_def new_param_def is_mat_mk_matrix)
qed

lemma demo_params_ok: "params_ok demo_layer"
  using demo_built_eq unfolding demo_built_def by (rule GRU_init_params_ok)

lemma stacked_built_eq: "stacked_built = Inr (stacked_layer, snd (projr stacked_built))"
  using stacked_not_failed by (cases stacked_built) (auto simp: stacked_layer_def)

lemma stacked_params_ok: "params_ok stacked_layer"
  using stacked_built_eq unfolding stacked_built_def by (rule GRU_init_params_ok)

lemma stacked_fields:
  "input_size stacked_layer = 1" "hidden_size stacked_layer = 1" "output_size stacked_layer = 1"
  "num_layers stacked_layer = 2" "batch_size stacked_layer = 1" "dropout_input stacked_layer = 0"
  by (simp_all add: stacked_layer_def stacked_built_def GRU_init_def new_nnGRU_def init_emb_def
      alloc_def Let_def)

lemma demo_hidden: "is_tensor3 (num_layers demo_layer) 2 (hidden_size demo_layer) (init_hidden demo_layer)"
  by (simp add: init_hidden_def demo_fields is_tensor3_def is_mat_def eval_nat_numeral)

lemma stacked_hidden:
  "is_tensor3 (num_layers stacked_layer) 1 (hidden_size stacked_layer) (init_hidden stacked_layer)"
  by (simp add: init_hidden_def stacked_fields is_tensor3_def is_mat_def eval_nat_numeral)

text \<open>
  Claim C2. On a well-formed layer, for an embedded batch of shape (B, input size), a
  hidden state of shape (L, B, H) and, in training mode, a target of length B with values
  in \<open>[0, C)\<close> and a dropout probability in \<open>[0, 1]\<close>, \<^verbatim>\<open>forward\<close> returns; the
  hidden state it returns has shape (L, B, H) in both modes, the logits have shape (B, B)
  in training mode and (B, C) otherwise.
\<close>

theorem forward_shapes:
  assumes "params_ok self"
    and "is_mat b (input_size self) embedded"
    and "is_tensor3 (num_layers self) b (hidden_size self) hidden"
    and "training self \<longrightarrow>
           length target = b \<and> list_all (\<lambda>k. 0 \<le> k \<and> k < int (output_size self)) target
           \<and> 0 \<le> dropout_input self \<and> dropout_input self \<le> 1"
  shows "\<exists>logit hid g'.
           forward self g embedded target hidden = Inr ((logit, hid), g')
         \<and> is_tensor3 (num_layers self) b (hidden_size self) hid
         \<and> (if training self then is_mat b b logit else is_mat b (output_size self) logit)"
proof -
  have "\<exists>e1 g1. input_dropout self g embedded = Inr (e1, g1)"
    using assms(4) input_dropout_training[of self g embedded] input_dropout_inference[of self g embedded]
    by (cases "training self") auto
  then obtain e1 g1 where d: "input_dropout self g embedded = Inr (e1, g1)" by blast
  from input_dropout_shape[OF d assms(2)] have e1: "is_mat b (input_size self) e1" .
  from full_logits_shape[OF assms(1) e1 assms(3), of g1] obtain full hid g2 where
    f: "full_logits self g1 e1 hidden = Inr ((full, hid), g2)"
       "is_mat b (output_size self) full"
       "is_tensor3 (num_layers self) b (hidden_size self) hid"
    by blast
  show ?thesis
  proof (cases "training self")
    case False
    with d f show ?thesis by (simp add: forward_def forward_tail_def)
  next
    case True
    with assms(4) have v: "list_all (\<lambda>k. 0 \<le> k \<and> k < int (output_size self)) target"
      and l: "length target = b" by auto
    have o: "out_features (h2o self) = output_size self" using assms(1) by (simp add: params_ok_def)
    have "length full = b" using f(2) by (simp add: is_mat_def)
    with is_mat_index_columns[of full target] l
    have "is_mat b b (map (\<lambda>row. map (\<lambda>k. row ! nat k) target) full)" by simp
    with True d f o index_columns_valid[OF v, of full] show ?thesis
      by (simp add: forward_def forward_tail_def)
  qed
qed

theorem forward_shapes_witness:
  "params_ok demo_layer
   \<and> is_mat 2 (input_size demo_layer) [[1, 0, 0, 0], [0, 0, 1, 0]]
   \<and> is_tensor3 (num_layers demo_layer) 2 (hidden_size demo_layer) (init_hidden demo_layer)
   \<and> training demo_layer
   \<and> length [2, 4 :: int] = 2
   \<and> list_all (\<lambda>k. 0 \<le> k \<and> k < int (output_size demo_layer)) [2, 4]
   \<and> 0 \<le> dropout_input demo_layer \<and> dropout_input demo_layer \<le> 1
   \<and> (\<exists>logit hid g'.
          forward demo_layer (\<lambda>_. 0) [[1, 0, 0, 0], [0, 0, 1, 0]] [2, 4] (init_hidden demo_layer)
            = Inr ((logit, hid), g')
        \<and> is_tensor3 1 2 3 hid \<and> is_mat 2 2 logit)
   \<and> params_ok stacked_layer \<and> \<not> training stacked_layer
   \<and> (\<exists>logit hid g'.
          forward stacked_layer (\<lambda>_. 0) [[0]] [] (init_hidden stacked_layer)
            = Inr ((logit, hid), g')
        \<and> is_tensor3 2 1 1 hid \<and> is_mat 1 1 logit)"
proof -
  have e: "is_mat 2 (input_size demo_layer) [[1, 0, 0, 0], [0, 0, 1, 0]]"
    by (simp add: is_mat_def demo_fields)
  have t: "training demo_layer \<longrightarrow>
           length [2, 4 :: int] = 2
           \<and> list_all (\<lambda>k. 0 \<le> k \<and> k < int (output_size demo_layer)) [2, 4]
           \<and> 0 \<le> dropout_input demo_layer \<and> dropout_input demo_layer \<le> 1"
    by (simp add: demo_fields)
  have e2: "is_mat 1 (input_size stacked_layer) [[0]]"
    by (simp add: is_mat_def stacked_fields)
  have t2: "training stacked_layer \<longrightarrow>
           length ([] :: int list) = 1
           \<and> list_all (\<lambda>k. 0 \<le> k \<and> k < int (output_size stacked_layer)) []
           \<and> 0 \<le> dropout_input stacked_layer \<and> dropout_input stacked_layer \<le> 1"
    by (simp add: stacked_training)
  from forward_shapes[OF demo_params_ok e demo_hidden t, of "\<lambda>_. 0"]
       forward_shapes[OF stacked_params_ok e2 stacked_hidden t2, of "\<lambda>_. 0"]
       demo_params_ok stacked_params_ok e t demo_hidden
  show ?thesis by (simp add: demo_fields stacked_fields stacked_training)
qed

text \<open>
  Claim C3. In training mode the logits \<^verbatim>\<open>forward\<close> returns are the full (B, C)
  logits, computed from the dropped-out input before sampling, restricted to the target
  columns: column \<open>j\<close> of the result is column \<open>target[j]\<close> of the full matrix, so
  two positions with the same target have identical columns.
\<close>

theorem forward_sampled_columns:
  assumes "training self"
    and "params_ok self"
    and "is_mat b (input_size self) embedded"
    and "is_tensor3 (num_layers self) b (hidden_size self) hidden"
    and "length target = b"
    and "list_all (\<lambda>k. 0 \<le> k \<and> k < int (output_size self)) target"
    and "0 \<le> dropout_input self" and "dropout_input self \<le> 1"
  shows "\<exists>e1 g1 full sampled hid g2.
           input_dropout self g embedded = Inr (e1, g1)
         \<and> full_logits self g1 e1 hidden = Inr ((full, hid), g2)
         \<and> is_mat b (output_size self) full
         \<and> forward self g embedded target hidden = Inr ((sampled, hid), g2)
         \<and> is_mat b b sampled
         \<and> (\<forall>j < b. column sampled j = column full (nat (target ! j)))
         \<and> (\<forall>j < b. \<forall>k < b. target ! j = target ! k \<longrightarrow> column sampled j = column sampled k)"
proof -
  obtain e1 g1 where d: "input_dropout self g embedded = Inr (e1, g1)"
    using input_dropout_training[OF assms(1,7,8), of g embedded] by blast
  from input_dropout_shape[OF d assms(3)] have e1: "is_mat b (input_size self) e1" .
  from full_logits_shape[OF assms(2) e1 assms(4), of g1] obtain full hid g2 where
    f: "full_logits self g1 e1 hidden = Inr ((full, hid), g2)"
       "is_mat b (output_size self) full"
       "is_tensor3 (num_layers self) b (hidden_size self) hid"
    by blast
  let ?s = "map (\<lambda>row. map (\<lambda>k. row ! nat k) target) full"
  have o: "out_features (h2o self) = output_size self" using assms(2) by (simp add: params_ok_def)
  have fw: "forward self g embedded target hidden = Inr ((?s, hid), g2)"
    using assms(1) d f o index_columns_valid[OF assms(6), of full]
    by (simp add: forward_def forward_tail_def)
  have "length full = b" using f(2) by (simp add: is_mat_def)
  with is_mat_index_columns[of full target] assms(5) have m: "is_mat b b ?s" by simp
  have c: "column ?s j = column full (nat (target ! j))" if "j < b" for j
    using that assms(5) by (simp add: column_def)
  have "column ?s j = column ?s k" if "j < b" "k < b" "target ! j = target ! k" for j k
    using that c by simp
  with d f fw m c show ?thesis by blast
qed

theorem forward_sampled_columns_witness:
  "training demo_layer \<and> params_ok demo_layer
   \<and> is_mat 2 (input_size demo_layer) [[1, 0, 0, 0], [0, 0, 1, 0]]
   \<and> is_tensor3 (num_layers demo_layer) 2 (hidden_size demo_layer) (init_hidden demo_layer)
   \<and> length [3, 3 :: int] = 2
   \<and> list_all (\<lambda>k. 0 \<le> k \<and> k < int (output_size demo_layer)) [3, 3]
   \<and> 0 \<le> dropout_input demo_layer \<and> dropout_input demo_layer \<le> 1
   \<and> (\<exists>e1 g1 full sampled hid g2.
          input_dropout demo_layer (\<lambda>_. 0) [[1, 0, 0, 0], [0, 0, 1, 0]] = Inr (e1, g1)
        \<and> full_logits demo_layer g1 e1 (init_hidden demo_layer) = Inr ((full, hid), g2)
        \<and> forward demo_layer (\<lambda>_. 0) [[1, 0, 0, 0], [0, 0, 1, 0]] [3, 3] (init_hidden demo_layer)
            = Inr ((sampled, hid), g2)
        \<and> column sampled 0 = column full 3
        \<and> column sampled 1 = column full 3
        \<and> column sampled 0 = column sampled 1)"
proof -
  have tr: "training demo_layer" by (simp add: demo_fields)
  have e: "is_mat 2 (input_size demo_layer) [[1, 0, 0, 0], [0, 0, 1, 0]]"
    by (simp add: is_mat_def demo_fields)
  have l: "length [3, 3 :: int] = 2" by simp
  have v: "list_all (\<lambda>k. 0 \<le> k \<and> k < int (output_size demo_layer)) [3, 3]"
    by (simp add: demo_fields)
  have p0: "0 \<le> dropout_input demo_layer" and p1: "dropout_input demo_layer \<le> 1"
    by (simp_all add: demo_fields)
  from forward_sampled_columns[OF tr demo_params_ok e demo_hidden l v p0 p1, of "\<lambda>_. 0"]
  obtain e1 g1 full sampled hid g2 where
    r: "input_dropout demo_layer (\<lambda>_. 0) [[1, 0, 0, 0], [0, 0, 1, 0]] = Inr (e1, g1)"
       "full_logits demo_layer g1 e1 (init_hidden demo_layer) = Inr ((full, hid), g2)"
       "forward demo_layer (\<lambda>_. 0) [[1, 0, 0, 0], [0, 0, 1, 0]] [3, 3] (init_hidden demo_layer)
            = Inr ((sampled, hid), g2)"
       "\<forall>j < 2. column sampled j = column full (nat ([3, 3] ! j))"
       "\<forall>j < 2. \<forall>k < 2. [3, 3 :: int] ! j = [3, 3] ! k \<longrightarrow> column sampled j = column sampled k"
    by blast
  from r(4) have c0: "column sampled 0 = column full 3" and c1: "column sampled 1 = column full 3"
    by (auto simp: eval_nat_numeral)
  from r(5) have c01: "column sampled 0 = column sampled 1" using c0 c1 by simp
  from tr demo_params_ok e demo_hidden l v p0 p1 r(1-3) c0 c1 c01 show ?thesis by blast
qed

text \<open>
  Claim C4. In training mode the input dropout draws one variate for each of the B rows
  (the generator advances by exactly B draws), row \<open>i\<close> is multiplied entry by entry by
  the one coin of that row, which is 1 when the variate is below \<open>1 - dropout_input\<close>
  and 0 otherwise, so the row is kept as it is or becomes the zero row; the rest of
  \<^verbatim>\<open>forward\<close> runs on the result. In inference mode the embedded input and the
  generator are passed on unchanged.
\<close>

theorem forward_input_dropout:
  assumes "is_mat b c embedded"
    and "training self \<longrightarrow> 0 \<le> dropout_input self \<and> dropout_input self \<le> 1"
  shows "if training self then
           (\<exists>e1. input_dropout self g embedded = Inr (e1, \<lambda>i. g (b + i))
               \<and> is_mat b c e1
               \<and> (\<forall>i < b. e1 ! i = map (\<lambda>x. x * coin (g i) (1 - dropout_input self)) (embedded ! i)
                        \<and> e1 ! i = (if g i < 1 - dropout_input self then embedded ! i
                                    else replicate c 0))
               \<and> forward self g embedded target hidden
                   = forward_tail self (\<lambda>i. g (b + i)) e1 target hidden)
         else input_dropout self g embedded = Inr (embedded, g)
              \<and> forward self g embedded target hidden
                  = forward_tail self g embedded target hidden"
proof (cases "training self")
  case False
  then show ?thesis by (simp add: forward_def input_dropout_inference)
next
  case True
  let ?q = "1 - dropout_input self"
  let ?e1 = "map (\<lambda>i. map (\<lambda>x. x * coin (g i) ?q) (embedded ! i)) [0..<length embedded]"
  have len: "length embedded = b" using assms(1) by (simp add: is_mat_def)
  have d: "input_dropout self g embedded = Inr (?e1, \<lambda>i. g (b + i))"
    using input_dropout_training[of self g embedded] True assms(2) len by simp
  have m: "is_mat b c ?e1" using input_dropout_shape[OF d assms(1)] .
  have rows: "?e1 ! i = map (\<lambda>x. x * coin (g i) ?q) (embedded ! i)
              \<and> ?e1 ! i = (if g i < ?q then embedded ! i else replicate c 0)" if "i < b" for i
  proof -
    have "length (embedded ! i) = c" using assms(1) that by (simp add: is_mat_def list_all_length)
    then have "map (\<lambda>x. x * 0) (embedded ! i) = replicate c (0::real)"
      by (simp add: map_replicate_const)
    with that len show ?thesis by (simp add: coin_def)
  qed
  have fw: "forward self g embedded target hidden
            = forward_tail self (\<lambda>i. g (b + i)) ?e1 target hidden"
    using d by (simp add: forward_def)
  have "\<exists>e1. input_dropout self g embedded = Inr (e1, \<lambda>i. g (b + i))
               \<and> is_mat b c e1
               \<and> (\<forall>i < b. e1 ! i = map (\<lambda>x. x * coin (g i) (1 - dropout_input self)) (embedded ! i)
                        \<and> e1 ! i = (if g i < 1 - dropout_input self then embedded ! i
                                    else replicate c 0))
               \<and> forward self g embedded target hidden
                   = forward_tail self (\<lambda>i. g (b + i)) e1 target hidden"
    using d m rows fw by (intro exI[of _ ?e1]) blast
  with True show ?thesis by (simp only: if_True)
qed

theorem forward_input_dropout_witness:
  "is_mat 2 4 [[1, 2, 3, 4], [5, 6, 7, 8 :: real]]
   \<and> training (demo_layer\<lparr>dropout_input := 1/2\<rparr>)
   \<and> 0 \<le> dropout_input (demo_layer\<lparr>dropout_input := 1/2\<rparr>)
   \<and> dropout_input (demo_layer\<lparr>dropout_input := 1/2\<rparr>) \<le> 1
   \<and> input_dropout (demo_layer\<lparr>dropout_input := 1/2\<rparr>) (\<lambda>i. if i = 0 then 1/4 else 3/4)
        [[1, 2, 3, 4], [5, 6, 7, 8]]
       = Inr ([[1, 2, 3, 4], [0, 0, 0, 0]], \<lambda>i. if 2 + i = 0 then 1/4 else 3/4)
   \<and> \<not> training stacked_layer
   \<and> input_dropout stacked_layer (\<lambda>i. 1/4) [[1, 2, 3, 4], [5, 6, 7, 8]]
       = Inr ([[1, 2, 3, 4], [5, 6, 7, 8]], \<lambda>i. 1/4)
   \<and> forward stacked_layer (\<lambda>i. 1/4) [[1, 2, 3, 4], [5, 6, 7, 8]] [] (init_hidden stacked_layer)
       = forward_tail stacked_layer (\<lambda>i. 1/4) [[1, 2, 3, 4], [5, 6, 7, 8]] [] (init_hidden stacked_layer)"
proof -
  let ?l = "demo_layer\<lparr>dropout_input := 1/2\<rparr>"
  let ?g = "\<lambda>i::nat. if i = 0 then 1/4 else 3/4 :: real"
  let ?e = "[[1, 2, 3, 4], [5, 6, 7, 8 :: real]]"
  have m: "is_mat 2 4 ?e" by (simp add: is_mat_def)
  have tr: "training ?l" by (simp add: demo_fields)
  have p: "training ?l \<longrightarrow> 0 \<le> dropout_input ?l \<and> dropout_input ?l \<le> 1" by simp
  from forward_input_dropout[OF m p, of ?g "[]" "[]"] tr
  have "\<exists>e1. input_dropout ?l ?g ?e = Inr (e1, \<lambda>i. ?g (2 + i))
               \<and> is_mat 2 4 e1
               \<and> (\<forall>i < 2. e1 ! i = map (\<lambda>x. x * coin (?g i) (1 - dropout_input ?l)) (?e ! i)
                        \<and> e1 ! i = (if ?g i < 1 - dropout_input ?l then ?e ! i
                                    else replicate 4 0))
               \<and> forward ?l ?g ?e [] [] = forward_tail ?l (\<lambda>i. ?g (2 + i)) e1 [] []"
    by (simp only: if_True)
  then obtain e1 where
    r: "input_dropout ?l ?g ?e = Inr (e1, \<lambda>i. ?g (2 + i))" "is_mat 2 4 e1"
       "\<forall>i < 2. e1 ! i = (if ?g i < 1 - dropout_input ?l then ?e ! i else replicate 4 0)"
    by blast
  from r(3) have "e1 ! 0 = [1, 2, 3, 4]" "e1 ! 1 = [0, 0, 0, 0]"
    by (auto simp: eval_nat_numeral)
  moreover from r(2) have "length e1 = 2" by (simp add: is_mat_def)
  ultimately have e1: "e1 = [[1, 2, 3, 4], [0, 0, 0, 0]]"
    by (intro nth_equalityI) (auto simp: less_Suc_eq eval_nat_numeral)
  have p2: "training stacked_layer \<longrightarrow> 0 \<le> dropout_input stacked_layer \<and> dropout_input stacked_layer \<le> 1"
    by (simp add: stacked_training)
  from forward_input_dropout[OF m p2, of "\<lambda>i. 1/4" "[]" "init_hidden stacked_layer"]
  have i: "input_dropout stacked_layer (\<lambda>i. 1/4) ?e = Inr (?e, \<lambda>i. 1/4)"
    "forward stacked_layer (\<lambda>i. 1/4) ?e [] (init_hidden stacked_layer)
       = forward_tail stacked_layer (\<lambda>i. 1/4) ?e [] (init_hidden stacked_layer)"
    by (simp_all add: stacked_training)
  from m tr r(1) e1 i show ?thesis by (simp add: stacked_training)
qed

section \<open>Determinism of the forward step\<close>

lemma upt_3: "[0..<3] = [0, 1, 2]" by (simp add: upt_rec)

lemma stacked_gru:
  "gru stacked_layer =
     \<lparr>gru_input_size = 1, gru_hidden_size = 1, gru_num_layers = 2, gru_dropout = 1/2,
      gru_training = True,
      all_weights =
        [\<lparr>weight_ih = \<lparr>data = [[0], [0], [0]], requires_grad = True\<rparr>,
          weight_hh = \<lparr>data = [[0], [0], [0]], requires_grad = True\<rparr>,
          bias_ih = \<lparr>data = [0, 0, 1], requires_grad = True\<rparr>,
          bias_hh = \<lparr>data = [0, 0, 0], requires_grad = True\<rparr>\<rparr>,
         \<lparr>weight_ih = \<lparr>data = [[0], [0], [1]], requires_grad = True\<rparr>,
          weight_hh = \<lparr>data = [[0], [0], [0]], requires_grad = True\<rparr>,
          bias_ih = \<lparr>data = [0, 0, 0], requires_grad = True\<rparr>,
          bias_hh = \<lparr>data = [0, 0, 0], requires_grad = True\<rparr>\<rparr>]\<rparr>"
  by (simp add: stacked_layer_def stacked_built_def GRU_init_def new_nnGRU_def init_emb_def
      alloc_def Let_def new_weights_def new_param_def mk_matrix_def stacked_w0_def upt_2 upt_3)

lemma stacked_h2o:
  "h2o stacked_layer =
     \<lparr>in_features = 1, out_features = 1,
      weight = \<lparr>data = [[1]], requires_grad = True\<rparr>,
      bias = \<lparr>data = [0], requires_grad = True\<rparr>\<rparr>"
  by (simp add: stacked_layer_def stacked_built_def GRU_init_def new_nnGRU_def init_emb_def
      alloc_def Let_def new_Linear_def new_param_def mk_matrix_def stacked_w0_def)

lemma stacked_init_hidden: "init_hidden stacked_layer = [[[0]], [[0]]]"
  by (simp add: init_hidden_def stacked_fields eval_nat_numeral)

lemma stacked_forward_keep:
  "forward stacked_layer (\<lambda>_. 0) [[0]] [] (init_hidden stacked_layer)
   = Inr (([[tanh (tanh (tanh 1) / 2)]], [[[tanh 1 / 2]], [[tanh (tanh 1) / 2]]]), \<lambda>_. 0)"
  by (simp add: forward_def forward_tail_def input_dropout_def stacked_training full_logits_def
      gru_forward_def stacked_gru stacked_h2o stacked_init_hidden is_tensor3_def is_mat_def
      Let_def gru_cell_def linear_def dot_def sigmoid_def dropout_mat_def draws_def coin_def
      linear_forward_def)

lemma stacked_forward_drop:
  "forward stacked_layer (\<lambda>_. 9/10) [[0]] [] (init_hidden stacked_layer)
   = Inr (([[0]], [[[tanh 1 / 2]], [[0]]]), \<lambda>_. 9/10)"
  by (simp add: forward_def forward_tail_def input_dropout_def stacked_training full_logits_def
      gru_forward_def stacked_gru stacked_h2o stacked_init_hidden is_tensor3_def is_mat_def
      Let_def gru_cell_def linear_def dot_def sigmoid_def dropout_mat_def draws_def coin_def
      linear_forward_def)

lemma gru_stack_eval:
  assumes "\<not> tr \<or> p = 0"
  shows "gru_stack tr p g pairs xs = (fst (gru_stack tr p g' pairs xs), g)"
  using assms
proof (induction pairs arbitrary: xs)
  case Nil
  then show ?case by simp
next
  case (Cons wh rest)
  obtain w h0 where wh: "wh = (w, h0)" by (cases wh)
  obtain ys hT where l: "gru_layer w xs h0 = (ys, hT)" by (cases "gru_layer w xs h0")
  from Cons.IH[OF Cons.prems, of ys] Cons.prems wh l show ?case
    by (auto simp: split_beta)
qed

lemma gru_stack_single:
  "gru_stack tr p g [wh] xs = (fst (gru_stack tr p g' [wh] xs), g)"
  by (cases wh) (simp add: split_beta)

lemma gru_stack_no_draw:
  assumes "\<not> tr \<or> p = 0 \<or> length pairs \<le> 1"
  shows "gru_stack tr p g pairs xs = (fst (gru_stack tr p g' pairs xs), g)"
proof (cases "\<not> tr \<or> p = 0")
  case True
  then show ?thesis by (rule gru_stack_eval)
next
  case False
  with assms have "length pairs \<le> 1" by simp
  then consider "pairs = []" | wh where "pairs = [wh]"
    by (cases pairs) (auto simp: Suc_le_length_iff le_Suc_eq)
  then show ?thesis
  proof cases
    case 1
    then show ?thesis by simp
  next
    case 2
    then show ?thesis using gru_stack_single[of tr p g wh xs g'] by simp
  qed
qed

text \<open>
  With the layer's flag off, \<^verbatim>\<open>forward\<close> draws nothing itself; its result is
  independent of the generator as soon as the recurrent module draws nothing either
  (its mode is off, as after every \<^verbatim>\<open>switch_mode\<close>, its dropout is 0, or it has
  one layer).
\<close>

lemma forward_eval_deterministic:
  assumes "\<not> training self"
    and "\<not> gru_training (gru self) \<or> gru_dropout (gru self) = 0
         \<or> length (all_weights (gru self)) \<le> 1"
  shows "map_sum id fst (forward self g embedded target hidden)
         = map_sum id fst (forward self g' embedded target hidden)"
proof -
  let ?m = "gru self"
  let ?pairs = "zip (all_weights ?m) hidden"
  have "\<not> gru_training ?m \<or> gru_dropout ?m = 0 \<or> length ?pairs \<le> 1"
    using assms(2) by auto
  from gru_stack_no_draw[OF this, of g "[embedded]" g']
  have s: "fst (gru_stack (gru_training ?m) (gru_dropout ?m) g ?pairs [embedded])
           = fst (gru_stack (gru_training ?m) (gru_dropout ?m) g' ?pairs [embedded])"
    by simp
  have "map_sum id fst (gru_forward ?m g [embedded] hidden)
        = map_sum id fst (gru_forward ?m g' [embedded] hidden)"
    using s by (simp add: gru_forward_def Let_def)
  then have "map_sum id fst (full_logits self g embedded hidden)
        = map_sum id fst (full_logits self g' embedded hidden)"
    by (auto simp: full_logits_def split: sum.splits)
  then show ?thesis
    using assms(1)
    by (auto simp: forward_def forward_tail_def input_dropout_def split: sum.splits)
qed

text \<open>
  Claim C5 fails on the layer \<^verbatim>\<open>__init__\<close> builds with \<^verbatim>\<open>training=False\<close>, two
  stacked layers and a hidden dropout of one half: the layer's flag is off, the
  recurrent module's own flag is still on, and two calls of \<^verbatim>\<open>forward\<close> on the same
  input, hidden state and parameters return different logits and hidden states when the
  draws of the dropout between the stacked layers differ.
\<close>

theorem forward_inference_not_deterministic:
  "\<not> isl stacked_built \<and> \<not> training stacked_layer
   \<and> gru_training (gru stacked_layer)
   \<and> forward stacked_layer (\<lambda>_. 0) [[0]] [] (init_hidden stacked_layer)
       = Inr (([[tanh (tanh (tanh 1) / 2)]], [[[tanh 1 / 2]], [[tanh (tanh 1) / 2]]]), \<lambda>_. 0)
   \<and> forward stacked_layer (\<lambda>_. 9/10) [[0]] [] (init_hidden stacked_layer)
       = Inr (([[0]], [[[tanh 1 / 2]], [[0]]]), \<lambda>_. 9/10)
   \<and> tanh (tanh (tanh 1) / 2) \<noteq> (0::real)"
  by (simp add: stacked_not_failed stacked_training stacked_gru stacked_forward_keep
      stacked_forward_drop)

end
